theory Spec2Isabelle
  imports Main "HOL-Library.Char_ord" "HOL-Library.List_Lexorder" "HOL-Library.AList"
begin

section \<open>Data model\<close>

text \<open>
  The package \<^verbatim>\<open>gosatnogs\<close> is a client of the SatNOGS database API. Its functions
  call four libraries of Go: \<^verbatim>\<open>net/url\<close>, \<^verbatim>\<open>net/http\<close>, \<^verbatim>\<open>encoding/json\<close> and
  \<^verbatim>\<open>time\<close>. The package's own code is embedded below function by function. Of the
  libraries, the query-string part of \<^verbatim>\<open>net/url\<close> (\<^verbatim>\<open>Values\<close>, \<^verbatim>\<open>QueryEscape\<close>,
  \<^verbatim>\<open>ParseQuery\<close>) is written out; the URL parser, the network and the JSON decoder are
  parameters of the model (record \<open>env\<close>), so that a theorem about \<open>env\<close> holds for every
  behaviour of the parser, the server and the decoder. What \<^verbatim>\<open>encoding/json\<close> does with a
  body is written out as well (section JSON): it is the decoder of the theorem on decode
  failures and of the stub server.

  A \<^verbatim>\<open>*Client\<close> is a client that \<^verbatim>\<open>NewClient\<close> built: the receiver and its \<^verbatim>\<open>http.Client\<close>
  are not nil. A pointer argument or result can be nil, and dereferencing it panics.
  Closing the response body (\<^verbatim>\<open>defer resp.Body.Close()\<close>) releases a resource and changes
  no result; it is not part of the model.
\<close>

text \<open>A Go \<^verbatim>\<open>error\<close> value, by its kind. \<open>EscapeError\<close> and \<open>SemicolonError\<close> are the two
  errors \<^verbatim>\<open>url.ParseQuery\<close> produces. The next five are the errors of decoding JSON:
  \<^verbatim>\<open>*json.SyntaxError\<close>, \<^verbatim>\<open>io.EOF\<close>, \<^verbatim>\<open>io.ErrUnexpectedEOF\<close>, \<^verbatim>\<open>*json.UnmarshalTypeError\<close>
  with its field \<^verbatim>\<open>Value\<close>, and the error of \<^verbatim>\<open>Time.UnmarshalJSON\<close> for a value that is not
  a string. \<open>LibError\<close> stands for any error of a library that is a parameter of the
  model.\<close>

datatype error = EscapeError string | SemicolonError
  | SyntaxError | EOF | ErrUnexpectedEOF | UnmarshalTypeError string | TimeNotString
  | LibError string

text \<open>A function that dereferences a nil pointer panics instead of returning.\<close>

datatype 'a outcome = Panics | Returns 'a

text \<open>\<^verbatim>\<open>time.Duration\<close> counts nanoseconds.\<close>

type_synonym Duration = int

definition Second :: Duration where
  "Second = 1000000000"

text \<open>\<^verbatim>\<open>const baseURL\<close> of the package (the record field below has the same name).\<close>

definition const_baseURL :: string where
  "const_baseURL = ''https://db.satnogs.org/api''"

record urlParam =
  Key :: string
  Value :: string

text \<open>\<^verbatim>\<open>http.Client\<close>: the only field the package sets is \<^verbatim>\<open>Timeout\<close>.\<close>

record http_Client =
  Timeout :: Duration

record Client =
  client :: http_Client
  baseURL :: string
  apiKey :: string

text \<open>\<^verbatim>\<open>time.Time\<close> is kept as an instant in nanoseconds; a Go \<^verbatim>\<open>int\<close> as an integer.\<close>

record Telemetry =
  SatID :: string
  NoradCatID :: int
  Transmitter :: string
  AppSource :: string
  Decoded :: string
  Frame :: string
  Observer :: string
  Timestamp :: int
  Version :: string
  ObservationID :: int
  StationID :: int

text \<open>A slice is \<open>None\<close> when it is nil. A pointer is \<open>None\<close> when it is nil.\<close>

record TelemetryResponse =
  Next :: string
  Prev :: string
  Results :: "Telemetry list option"

text \<open>\<^verbatim>\<open>url.URL\<close>. The package reads and writes \<^verbatim>\<open>RawQuery\<close> only.\<close>

record URL =
  Scheme :: string
  Host :: string
  Path :: string
  RawQuery :: string
  Fragment :: string

text \<open>\<^verbatim>\<open>http.Request\<close>, the fields \<^verbatim>\<open>http.NewRequest\<close> sets from its arguments: the method,
  the parsed URL, the header (a map from a header name to its values) and \<^verbatim>\<open>Host\<close>
  (here \<open>ReqHost\<close>: \<open>Host\<close> is the field of \<open>URL\<close>).\<close>

record request =
  Method :: string
  URL :: URL
  Header :: "string \<rightharpoonup> string list"
  ReqHost :: string

record response =
  StatusCode :: int
  Body :: string

text \<open>The requests handed to \<^verbatim>\<open>http.Client.Do\<close> so far, oldest first.\<close>

type_synonym wire = "request list"

text \<open>The libraries that are parameters: \<^verbatim>\<open>url.Parse\<close>, \<^verbatim>\<open>URL.String\<close>, the round trip
  of \<^verbatim>\<open>http.Client.Do\<close> (it sees the client's configuration and the requests already
  sent, and answers with an error or a response) and \<^verbatim>\<open>json.Decoder.Decode\<close> into a
  \<^verbatim>\<open>TelemetryResponse\<close> that starts as the zero value. The first three return an error or
  a value, never both and never neither, as the libraries document. \<^verbatim>\<open>Decode\<close> writes into
  the struct it is given and returns an error or nil: \<open>json_Decode\<close> gives the struct as
  \<^verbatim>\<open>Decode\<close> leaves it, and the error.\<close>

record env =
  url_Parse :: "string \<Rightarrow> error + URL"
  url_String :: "URL \<Rightarrow> string"
  http_RoundTrip :: "http_Client \<Rightarrow> wire \<Rightarrow> request \<Rightarrow> error + response"
  json_Decode :: "string \<Rightarrow> TelemetryResponse \<times> error option"

section \<open>Query strings of \<^verbatim>\<open>net/url\<close>\<close>

text \<open>\<^verbatim>\<open>shouldEscape(c, encodeQueryComponent)\<close>: letters, digits and \<^verbatim>\<open>-_.~\<close> are kept,
  every other byte is escaped.\<close>

definition shouldEscape :: "char \<Rightarrow> bool" where
  "shouldEscape c =
     (if (CHR ''a'' \<le> c \<and> c \<le> CHR ''z'') \<or> (CHR ''A'' \<le> c \<and> c \<le> CHR ''Z'') \<or>
         (CHR ''0'' \<le> c \<and> c \<le> CHR ''9'') then False
      else if c = CHR ''-'' \<or> c = CHR ''_'' \<or> c = CHR ''.'' \<or> c = CHR ''~'' then False
      else True)"

definition upperhex :: string where
  "upperhex = ''0123456789ABCDEF''"

definition ishex :: "char \<Rightarrow> bool" where
  "ishex c =
     ((CHR ''0'' \<le> c \<and> c \<le> CHR ''9'') \<or> (CHR ''a'' \<le> c \<and> c \<le> CHR ''f'') \<or>
      (CHR ''A'' \<le> c \<and> c \<le> CHR ''F''))"

definition unhex :: "char \<Rightarrow> nat" where
  "unhex c =
     (if CHR ''0'' \<le> c \<and> c \<le> CHR ''9'' then of_char c - of_char CHR ''0''
      else if CHR ''a'' \<le> c \<and> c \<le> CHR ''f'' then of_char c - of_char CHR ''a'' + 10
      else if CHR ''A'' \<le> c \<and> c \<le> CHR ''F'' then of_char c - of_char CHR ''A'' + 10
      else 0)"

text \<open>\<^verbatim>\<open>url.QueryEscape\<close>: a space becomes \<^verbatim>\<open>+\<close>, any other escaped byte \<^verbatim>\<open>c\<close> becomes
  \<^verbatim>\<open>%\<close>, \<^verbatim>\<open>upperhex[c>>4]\<close>, \<^verbatim>\<open>upperhex[c&15]\<close>.\<close>

fun QueryEscape :: "string \<Rightarrow> string" where
  "QueryEscape [] = []"
| "QueryEscape (c # s) =
     (if shouldEscape c then
        (if c = CHR '' '' then CHR ''+'' # QueryEscape s
         else CHR ''%'' # upperhex ! (of_char c div 16) # upperhex ! (of_char c mod 16) #
              QueryEscape s)
      else c # QueryEscape s)"

text \<open>\<^verbatim>\<open>url.QueryUnescape\<close>: \<^verbatim>\<open>%XY\<close> becomes the byte \<^verbatim>\<open>unhex(X)<<4 | unhex(Y)\<close>, \<^verbatim>\<open>+\<close> a
  space; a \<^verbatim>\<open>%\<close> that two hex digits do not follow is an \<^verbatim>\<open>EscapeError\<close> of the (at most
  three) bytes from it on.\<close>

fun QueryUnescape :: "string \<Rightarrow> error + string" where
  "QueryUnescape [] = Inr []"
| "QueryUnescape (c # s) =
     (if c = CHR ''%'' then
        (case s of
           a # b # rest \<Rightarrow>
             if ishex a \<and> ishex b then
               (case QueryUnescape rest of
                  Inl err \<Rightarrow> Inl err
                | Inr t \<Rightarrow> Inr (char_of (unhex a * 16 + unhex b) # t))
             else Inl (EscapeError (take 3 (c # s)))
         | _ \<Rightarrow> Inl (EscapeError (take 3 (c # s))))
      else
        (case QueryUnescape s of
           Inl err \<Rightarrow> Inl err
         | Inr t \<Rightarrow> Inr ((if c = CHR ''+'' then CHR '' '' else c) # t)))"

text \<open>\<^verbatim>\<open>url.Values\<close> is a \<^verbatim>\<open>map[string][]string\<close>: here an association list with one entry
  for each key of the map. \<open>Values_index v k\<close> is the map index \<^verbatim>\<open>v[k]\<close>, the empty
  slice for a key the map does not have.\<close>

type_synonym Values = "(string \<times> string list) list"

definition Values_index :: "Values \<Rightarrow> string \<Rightarrow> string list" where
  "Values_index v k = (case map_of v k of None \<Rightarrow> [] | Some vs \<Rightarrow> vs)"

text \<open>\<^verbatim>\<open>Values.Add\<close>: \<^verbatim>\<open>v[key] = append(v[key], value)\<close>.\<close>

definition Values_Add :: "Values \<Rightarrow> string \<Rightarrow> string \<Rightarrow> Values" where
  "Values_Add v k val = AList.update k (Values_index v k @ [val]) v"

text \<open>\<^verbatim>\<open>strings.Cut(s, sep)\<close> for a separator of one byte: the text before the first
  \<^verbatim>\<open>sep\<close> and the text after it; all of \<^verbatim>\<open>s\<close> and the empty string when \<^verbatim>\<open>sep\<close> does not
  occur.\<close>

definition Cut :: "string \<Rightarrow> char \<Rightarrow> string \<times> string" where
  "Cut s sep = (takeWhile (\<lambda>c. c \<noteq> sep) s, drop 1 (dropWhile (\<lambda>c. c \<noteq> sep) s))"

lemma Cut_shorter: "q \<noteq> [] \<Longrightarrow> length (snd (Cut q sep)) < length q"
proof -
  assume nonempty: "q \<noteq> []"
  define d where "d = dropWhile (\<lambda>c. c \<noteq> sep) q"
  have le: "length d \<le> length q"
    unfolding d_def by (rule length_dropWhile_le)
  have "length (drop 1 d) < length q"
  proof (cases d)
    case Nil
    with nonempty show ?thesis by simp
  next
    case (Cons x xs)
    with le show ?thesis by simp
  qed
  then show ?thesis by (simp add: Cut_def d_def)
qed

text \<open>The loop of \<^verbatim>\<open>url.parseQuery\<close>: it fills the map \<^verbatim>\<open>m\<close> setting by setting and keeps
  the first error (a semicolon replaces the error each time). Releases of Go that cap
  the number of settings (\<^verbatim>\<open>GODEBUG urlmaxqueryparams\<close>) return an error beyond the cap;
  the loop below has no cap.\<close>

function parseQuery :: "Values \<Rightarrow> error option \<Rightarrow> string \<Rightarrow> Values \<times> error option" where
  "parseQuery m err query =
     (if query = [] then (m, err)
      else
        let key = fst (Cut query CHR ''&'');
            rest = snd (Cut query CHR ''&'')
        in if CHR '';'' \<in> set key then parseQuery m (Some SemicolonError) rest
           else if key = [] then parseQuery m err rest
           else
             let val = snd (Cut key CHR ''='');
                 key = fst (Cut key CHR ''='')
             in case QueryUnescape key of
                  Inl err1 \<Rightarrow> parseQuery m (if err = None then Some err1 else err) rest
                | Inr key \<Rightarrow>
                    (case QueryUnescape val of
                       Inl err1 \<Rightarrow> parseQuery m (if err = None then Some err1 else err) rest
                     | Inr val \<Rightarrow> parseQuery (Values_Add m key val) err rest))"
  by pat_completeness auto
termination
  by (relation "measure (\<lambda>(m, err, query). length query)") (simp_all add: Cut_shorter)

text \<open>\<^verbatim>\<open>url.ParseQuery\<close> starts from an empty map; \<^verbatim>\<open>URL.Query\<close> drops the error.\<close>

definition ParseQuery :: "string \<Rightarrow> Values \<times> error option" where
  "ParseQuery query = parseQuery [] None query"

definition URL_Query :: "URL \<Rightarrow> Values" where
  "URL_Query u = fst (ParseQuery (RawQuery u))"

text \<open>The body of the inner loop of \<^verbatim>\<open>Values.Encode\<close>: an \<^verbatim>\<open>&\<close> when the buffer is not
  empty, then the escaped key, \<^verbatim>\<open>=\<close> and the escaped value.\<close>

definition write_pair :: "string \<Rightarrow> string \<Rightarrow> string \<Rightarrow> string" where
  "write_pair buf k val =
     (if length buf > 0 then buf @ ''&'' else buf) @ QueryEscape k @ ''='' @ QueryEscape val"

text \<open>\<^verbatim>\<open>Values.Encode\<close>: the keys sorted (bytewise), each key with its values in order.\<close>

definition Values_Encode :: "Values \<Rightarrow> string" where
  "Values_Encode v =
     (if length v = 0 then []
      else fold (\<lambda>k buf. fold (\<lambda>val buf. write_pair buf k val) (Values_index v k) buf)
             (sort (map fst v)) [])"

section \<open>JSON: \<^verbatim>\<open>encoding/json\<close> decoding into a \<^verbatim>\<open>TelemetryResponse\<close>\<close>

text \<open>\<^verbatim>\<open>json.NewDecoder(body).Decode(&telemetryResponse)\<close> works in two steps. The scanner
  reads the bytes of the body up to the end of the first JSON value, or fails; then the
  value is stored into the struct, field by field. Both are written out here from the
  library, for a body that is read without a network error. Two things are not in the
  model: the text and offset of an error (an error is its kind), and the parser of
  RFC 3339 times, which is a parameter. A Go \<^verbatim>\<open>int\<close> has 64 bits.\<close>

subsection \<open>The scanner\<close>

text \<open>A JSON value as the scanner delimits it. A number keeps its literal, a string and
  an object key keep the bytes between the quotes, escapes included.\<close>

datatype json = JNull | JBool bool | JNumber string | JString string
  | JArray "json list" | JObject "(string \<times> json) list"

text \<open>The scanner's \<^verbatim>\<open>parseState\<close>: one frame for each array or object that is open, with
  what it holds so far; an object frame also holds the key that waits for its value.\<close>

datatype frame = ArrayFrame "json list" | ObjectFrame "(string \<times> json) list" "string option"

text \<open>The scanner's \<^verbatim>\<open>step\<close>: its state functions (\<^verbatim>\<open>stateBeginValue\<close>, \<^verbatim>\<open>stateInString\<close>,
  \<^verbatim>\<open>state0\<close>, \<^verbatim>\<open>stateTru\<close> and so on). \<open>InStringEscU n\<close> has read \<open>n\<close> hex digits of a
  hexadecimal escape, \<open>InLiteral rest v\<close> expects the bytes \<open>rest\<close> of the literal \<open>v\<close>, \<open>EndTop v\<close> is
  the state after the top-level value \<open>v\<close>.\<close>

datatype mode = BeginValue | BeginValueOrEmpty | BeginStringOrEmpty | BeginString
  | InString | InStringEsc | InStringEscU nat
  | Neg | Zero | Digits | Dot | Dot0 | Exp | ExpSign | Exp0
  | InLiteral string json
  | EndValue | EndTop json

record scanner =
  step :: mode
  parseState :: "frame list"
  token :: string

text \<open>The result of one step: go on, the top-level value has ended (\<^verbatim>\<open>scanEnd\<close>), or a
  syntax error (\<^verbatim>\<open>scanError\<close>).\<close>

datatype scanned = Continue scanner | End json | ScanError

definition maxNestingDepth :: nat where
  "maxNestingDepth = 10000"

definition isSpace :: "char \<Rightarrow> bool" where
  "isSpace c = (c = CHR '' '' \<or> c = CHR 0x09 \<or> c = CHR 0x0D \<or> c = CHR 0x0A)"

definition isDigit :: "char \<Rightarrow> bool" where
  "isDigit c = (CHR ''0'' \<le> c \<and> c \<le> CHR ''9'')"

definition isHexDigit :: "char \<Rightarrow> bool" where
  "isHexDigit c = (isDigit c \<or> (CHR ''a'' \<le> c \<and> c \<le> CHR ''f'') \<or> (CHR ''A'' \<le> c \<and> c \<le> CHR ''F''))"

text \<open>A value is complete: it becomes the top-level value, an element of the open
  array, the value of the waiting key, or (a string where a key is expected) the waiting
  key.\<close>

fun deliver :: "json \<Rightarrow> frame list \<Rightarrow> scanner" where
  "deliver v [] = \<lparr>step = EndTop v, parseState = [], token = []\<rparr>"
| "deliver v (ArrayFrame vs # fs) =
     \<lparr>step = EndValue, parseState = ArrayFrame (vs @ [v]) # fs, token = []\<rparr>"
| "deliver v (ObjectFrame ms (Some k) # fs) =
     \<lparr>step = EndValue, parseState = ObjectFrame (ms @ [(k, v)]) None # fs, token = []\<rparr>"
| "deliver v (ObjectFrame ms None # fs) =
     \<lparr>step = EndValue,
      parseState = ObjectFrame ms (Some (case v of JString k \<Rightarrow> k | _ \<Rightarrow> [])) # fs,
      token = []\<rparr>"

text \<open>A closing bracket. When it closes the top-level value the decoder stops there
  (\<^verbatim>\<open>Decoder.readValue\<close> does not wait for the next byte).\<close>

definition close_value :: "json \<Rightarrow> frame list \<Rightarrow> scanned" where
  "close_value v fs = (if fs = [] then End v else Continue (deliver v fs))"

fun stateEndValue :: "frame list \<Rightarrow> char \<Rightarrow> scanned" where
  "stateEndValue [] c = ScanError"
| "stateEndValue (f # fs) c =
     (if isSpace c then Continue \<lparr>step = EndValue, parseState = f # fs, token = []\<rparr>
      else case f of
        ObjectFrame ms (Some k) \<Rightarrow>
          if c = CHR '':'' then Continue \<lparr>step = BeginValue, parseState = f # fs, token = []\<rparr>
          else ScanError
      | ObjectFrame ms None \<Rightarrow>
          if c = CHR '','' then Continue \<lparr>step = BeginString, parseState = f # fs, token = []\<rparr>
          else if c = CHR ''}'' then close_value (JObject ms) fs
          else ScanError
      | ArrayFrame vs \<Rightarrow>
          if c = CHR '','' then Continue \<lparr>step = BeginValue, parseState = f # fs, token = []\<rparr>
          else if c = CHR '']'' then close_value (JArray vs) fs
          else ScanError)"

text \<open>\<^verbatim>\<open>pushParseState\<close>: more than \<open>maxNestingDepth\<close> open arrays and objects is an
  error.\<close>

definition pushParseState :: "frame list \<Rightarrow> frame \<Rightarrow> mode \<Rightarrow> scanned" where
  "pushParseState fs f successState =
     (if length (f # fs) \<le> maxNestingDepth
      then Continue \<lparr>step = successState, parseState = f # fs, token = []\<rparr>
      else ScanError)"

definition stateBeginValue :: "frame list \<Rightarrow> char \<Rightarrow> scanned" where
  "stateBeginValue fs c =
     (if c = CHR ''{'' then pushParseState fs (ObjectFrame [] None) BeginStringOrEmpty
      else if c = CHR ''['' then pushParseState fs (ArrayFrame []) BeginValueOrEmpty
      else if c = CHR 0x22 then Continue \<lparr>step = InString, parseState = fs, token = []\<rparr>
      else if c = CHR ''-'' then Continue \<lparr>step = Neg, parseState = fs, token = [c]\<rparr>
      else if c = CHR ''0'' then Continue \<lparr>step = Zero, parseState = fs, token = [c]\<rparr>
      else if c = CHR ''t'' then
        Continue \<lparr>step = InLiteral ''rue'' (JBool True), parseState = fs, token = []\<rparr>
      else if c = CHR ''f'' then
        Continue \<lparr>step = InLiteral ''alse'' (JBool False), parseState = fs, token = []\<rparr>
      else if c = CHR ''n'' then
        Continue \<lparr>step = InLiteral ''ull'' JNull, parseState = fs, token = []\<rparr>
      else if CHR ''1'' \<le> c \<and> c \<le> CHR ''9'' then
        Continue \<lparr>step = Digits, parseState = fs, token = [c]\<rparr>
      else ScanError)"

text \<open>A byte that cannot continue a number ends it; the byte is then read in the state
  after a value.\<close>

definition endNumber :: "scanner \<Rightarrow> char \<Rightarrow> scanned" where
  "endNumber s c =
     (if parseState s = [] then End (JNumber (token s))
      else stateEndValue (parseState (deliver (JNumber (token s)) (parseState s))) c)"

definition more :: "scanner \<Rightarrow> mode \<Rightarrow> char \<Rightarrow> scanned" where
  "more s m c = Continue (s\<lparr>step := m, token := token s @ [c]\<rparr>)"

definition state0 :: "scanner \<Rightarrow> char \<Rightarrow> scanned" where
  "state0 s c =
     (if c = CHR ''.'' then more s Dot c
      else if c = CHR ''e'' \<or> c = CHR ''E'' then more s Exp c
      else endNumber s c)"

definition stateESign :: "scanner \<Rightarrow> char \<Rightarrow> scanned" where
  "stateESign s c = (if isDigit c then more s Exp0 c else ScanError)"

definition scan_step :: "scanner \<Rightarrow> char \<Rightarrow> scanned" where
  "scan_step s c =
     (case step s of
        BeginValue \<Rightarrow> if isSpace c then Continue s else stateBeginValue (parseState s) c
      | BeginValueOrEmpty \<Rightarrow>
          if isSpace c then Continue s
          else if c = CHR '']'' then stateEndValue (parseState s) c
          else stateBeginValue (parseState s) c
      | BeginStringOrEmpty \<Rightarrow>
          if isSpace c then Continue s
          else if c = CHR ''}'' then stateEndValue (parseState s) c
          else if c = CHR 0x22 then Continue (s\<lparr>step := InString, token := []\<rparr>)
          else ScanError
      | BeginString \<Rightarrow>
          if isSpace c then Continue s
          else if c = CHR 0x22 then Continue (s\<lparr>step := InString, token := []\<rparr>)
          else ScanError
      | InString \<Rightarrow>
          if c = CHR 0x22 then Continue (deliver (JString (token s)) (parseState s))
          else if c = CHR 0x5C then more s InStringEsc c
          else if c < CHR 0x20 then ScanError
          else more s InString c
      | InStringEsc \<Rightarrow>
          if c \<in> set ''bfnrt/'' \<or> c = CHR 0x5C \<or> c = CHR 0x22 then more s InString c
          else if c = CHR ''u'' then more s (InStringEscU 0) c
          else ScanError
      | InStringEscU n \<Rightarrow>
          if isHexDigit c then more s (if n < 3 then InStringEscU (Suc n) else InString) c
          else ScanError
      | Neg \<Rightarrow>
          if c = CHR ''0'' then more s Zero c
          else if CHR ''1'' \<le> c \<and> c \<le> CHR ''9'' then more s Digits c
          else ScanError
      | Digits \<Rightarrow> if isDigit c then more s Digits c else state0 s c
      | Zero \<Rightarrow> state0 s c
      | Dot \<Rightarrow> if isDigit c then more s Dot0 c else ScanError
      | Dot0 \<Rightarrow>
          if isDigit c then more s Dot0 c
          else if c = CHR ''e'' \<or> c = CHR ''E'' then more s Exp c
          else endNumber s c
      | Exp \<Rightarrow> if c = CHR ''+'' \<or> c = CHR ''-'' then more s ExpSign c else stateESign s c
      | ExpSign \<Rightarrow> stateESign s c
      | Exp0 \<Rightarrow> if isDigit c then more s Exp0 c else endNumber s c
      | InLiteral rest v \<Rightarrow>
          (case rest of
             [] \<Rightarrow> ScanError
           | e # r \<Rightarrow>
               if c \<noteq> e then ScanError
               else if r = [] then Continue (deliver v (parseState s))
               else Continue (s\<lparr>step := InLiteral r v\<rparr>))
      | EndValue \<Rightarrow> stateEndValue (parseState s) c
      | EndTop v \<Rightarrow> End v)"

text \<open>\<^verbatim>\<open>Decoder.readValue\<close>: the scanner runs over the body. At the end of the body it is
  given one space; a value that is still not complete is \<^verbatim>\<open>io.ErrUnexpectedEOF\<close>, or
  \<^verbatim>\<open>io.EOF\<close> when the body holds white space only. Bytes after the first value are not
  read.\<close>

datatype scan_result = Complete json | Incomplete | Invalid

fun scan :: "scanner \<Rightarrow> string \<Rightarrow> scan_result" where
  "scan s [] = (case scan_step s CHR '' '' of End v \<Rightarrow> Complete v | _ \<Rightarrow> Incomplete)"
| "scan s (c # cs) =
     (case scan_step s c of
        End v \<Rightarrow> Complete v
      | ScanError \<Rightarrow> Invalid
      | Continue s' \<Rightarrow> scan s' cs)"

definition readValue :: "string \<Rightarrow> error + json" where
  "readValue buf =
     (case scan \<lparr>step = BeginValue, parseState = [], token = []\<rparr> buf of
        Complete v \<Rightarrow> Inr v
      | Invalid \<Rightarrow> Inl SyntaxError
      | Incomplete \<Rightarrow>
          if list_ex (\<lambda>c. \<not> isSpace c) buf then Inl ErrUnexpectedEOF else Inl EOF)"


subsection \<open>Strings\<close>

text \<open>\<^verbatim>\<open>utf8.DecodeRune\<close>, as far as the decoder needs it: the number of bytes of the
  well-formed UTF-8 sequence at the head of \<open>s\<close>, or 0 when there is none.\<close>

definition in_range :: "nat \<Rightarrow> nat \<Rightarrow> char \<Rightarrow> bool" where
  "in_range lo hi c = (lo \<le> of_char c \<and> of_char c \<le> hi)"

definition continued :: "nat \<Rightarrow> nat \<Rightarrow> nat \<Rightarrow> string \<Rightarrow> bool" where
  "continued lo hi n s =
     (case s of
        [] \<Rightarrow> False
      | b # r \<Rightarrow> in_range lo hi b \<and> n \<le> length r \<and> list_all (in_range 0x80 0xBF) (take n r))"

definition utf8_size :: "string \<Rightarrow> nat" where
  "utf8_size s =
     (case s of
        [] \<Rightarrow> 0
      | c # r \<Rightarrow>
          if in_range 0x00 0x7F c then 1
          else if in_range 0xC2 0xDF c then (if continued 0x80 0xBF 0 r then 2 else 0)
          else if in_range 0xE0 0xE0 c then (if continued 0xA0 0xBF 1 r then 3 else 0)
          else if in_range 0xE1 0xEC c then (if continued 0x80 0xBF 1 r then 3 else 0)
          else if in_range 0xED 0xED c then (if continued 0x80 0x9F 1 r then 3 else 0)
          else if in_range 0xEE 0xEF c then (if continued 0x80 0xBF 1 r then 3 else 0)
          else if in_range 0xF0 0xF0 c then (if continued 0x90 0xBF 2 r then 4 else 0)
          else if in_range 0xF1 0xF3 c then (if continued 0x80 0xBF 2 r then 4 else 0)
          else if in_range 0xF4 0xF4 c then (if continued 0x80 0x8F 2 r then 4 else 0)
          else 0)"

text \<open>\<^verbatim>\<open>utf8.EncodeRune\<close> for a rune that is not a surrogate.\<close>

definition EncodeRune :: "nat \<Rightarrow> string" where
  "EncodeRune r =
     (if r < 0x80 then [char_of r]
      else if r < 0x800 then [char_of (0xC0 + r div 64), char_of (0x80 + r mod 64)]
      else if r < 0x10000 then
        [char_of (0xE0 + r div 4096), char_of (0x80 + r div 64 mod 64), char_of (0x80 + r mod 64)]
      else
        [char_of (0xF0 + r div 262144), char_of (0x80 + r div 4096 mod 64),
         char_of (0x80 + r div 64 mod 64), char_of (0x80 + r mod 64)])"

definition ReplacementChar :: nat where
  "ReplacementChar = 0xFFFD"

definition hexval :: "char \<Rightarrow> nat" where
  "hexval c =
     (if isDigit c then of_char c - of_char CHR ''0''
      else if CHR ''a'' \<le> c \<and> c \<le> CHR ''f'' then of_char c - of_char CHR ''a'' + 10
      else of_char c - of_char CHR ''A'' + 10)"

text \<open>\<^verbatim>\<open>getu4\<close>: the rune of a hexadecimal escape (backslash, \<^verbatim>\<open>u\<close>, four hex digits) at
  the head of \<open>s\<close>.\<close>

definition getu4 :: "string \<Rightarrow> nat option" where
  "getu4 s =
     (case s of
        b # u # h1 # h2 # h3 # h4 # r \<Rightarrow>
          if b = CHR 0x5C \<and> u = CHR ''u'' \<and> list_all isHexDigit [h1, h2, h3, h4]
          then Some (((hexval h1 * 16 + hexval h2) * 16 + hexval h3) * 16 + hexval h4)
          else None
      | _ \<Rightarrow> None)"

definition utf16_DecodeRune :: "nat \<Rightarrow> nat option \<Rightarrow> nat" where
  "utf16_DecodeRune r1 r2 =
     (case r2 of
        None \<Rightarrow> ReplacementChar
      | Some r2 \<Rightarrow>
          if 0xD800 \<le> r1 \<and> r1 < 0xDC00 \<and> 0xDC00 \<le> r2 \<and> r2 < 0xE000
          then (r1 - 0xD800) * 1024 + (r2 - 0xDC00) + 0x10000
          else ReplacementChar)"

definition simple_escape :: "char \<Rightarrow> char option" where
  "simple_escape e =
     (if e = CHR 0x22 \<or> e = CHR 0x5C \<or> e = CHR ''/'' \<or> e = CHR 0x27 then Some e
      else if e = CHR ''b'' then Some (CHR 0x08)
      else if e = CHR ''f'' then Some (CHR 0x0C)
      else if e = CHR ''n'' then Some (CHR 0x0A)
      else if e = CHR ''r'' then Some (CHR 0x0D)
      else if e = CHR ''t'' then Some (CHR 0x09)
      else None)"

text \<open>\<^verbatim>\<open>unquoteBytes\<close>, on the bytes between the quotes: escapes are replaced, a surrogate
  pair becomes one rune, a lone surrogate and every byte that is not part of well-formed
  UTF-8 become U+FFFD. \<open>None\<close> is the library's \<^verbatim>\<open>ok = false\<close>, which does not happen for
  a string the scanner has accepted.\<close>

function unquote :: "string \<Rightarrow> string option" where
  "unquote s =
     (case s of
        [] \<Rightarrow> Some []
      | c # r \<Rightarrow>
          if c = CHR 0x5C then
            (case r of
               [] \<Rightarrow> None
             | e # r' \<Rightarrow>
                 if e = CHR ''u'' then
                   (case getu4 s of
                      None \<Rightarrow> None
                    | Some rr \<Rightarrow>
                        if 0xD800 \<le> rr \<and> rr < 0xE000 then
                          (if utf16_DecodeRune rr (getu4 (drop 6 s)) \<noteq> ReplacementChar then
                             map_option
                               ((@) (EncodeRune (utf16_DecodeRune rr (getu4 (drop 6 s)))))
                               (unquote (drop 12 s))
                           else map_option ((@) (EncodeRune ReplacementChar)) (unquote (drop 6 s)))
                        else map_option ((@) (EncodeRune rr)) (unquote (drop 6 s)))
                 else
                   (case simple_escape e of
                      None \<Rightarrow> None
                    | Some b \<Rightarrow> map_option ((#) b) (unquote r')))
          else if c = CHR 0x22 \<or> c < CHR 0x20 then None
          else if in_range 0x00 0x7F c then map_option ((#) c) (unquote r)
          else if utf8_size s = 0 then map_option ((@) (EncodeRune ReplacementChar)) (unquote r)
          else map_option ((@) (take (utf8_size s) s)) (unquote (drop (utf8_size s) s)))"
  by pat_completeness auto
termination
  by (relation "measure length") auto


subsection \<open>Field names\<close>

text \<open>A key selects the field whose name is equal to it under \<^verbatim>\<open>foldName\<close>: ASCII letters
  in upper case, and the two runes that fold to ASCII letters, U+017F to \<^verbatim>\<open>S\<close> and U+212A
  to \<^verbatim>\<open>K\<close>. A key with any other rune beyond ASCII selects no field of these structs
  (\<open>None\<close>).\<close>

definition upper :: "char \<Rightarrow> char" where
  "upper c = (if CHR ''a'' \<le> c \<and> c \<le> CHR ''z'' then char_of (of_char c - (32::nat)) else c)"

fun foldName :: "string \<Rightarrow> string option" where
  "foldName [] = Some []"
| "foldName (c # s) =
     (if in_range 0x00 0x7F c then map_option ((#) (upper c)) (foldName s)
      else if c = CHR 0xC5 then
        (case s of
           b # r \<Rightarrow> if b = CHR 0xBF then map_option ((#) CHR ''S'') (foldName r) else None
         | _ \<Rightarrow> None)
      else if c = CHR 0xE2 then
        (case s of
           a # b # r \<Rightarrow>
             if a = CHR 0x84 \<and> b = CHR 0xAA then map_option ((#) CHR ''K'') (foldName r)
             else None
         | _ \<Rightarrow> None)
      else None)"

definition field_of_key :: "string \<Rightarrow> string option" where
  "field_of_key raw = (case unquote raw of None \<Rightarrow> None | Some key \<Rightarrow> foldName key)"

subsection \<open>Storing a value into a field\<close>

text \<open>A value of the wrong type for a field leaves the field as it is; the first such
  error is kept (\<^verbatim>\<open>saveError\<close>) and returned at the end, and decoding goes on. \<^verbatim>\<open>null\<close>
  leaves a string, an integer and a struct as they are and makes a slice nil.\<close>

definition value_kind :: "json \<Rightarrow> string" where
  "value_kind v =
     (case v of
        JNull \<Rightarrow> ''null'' | JBool b \<Rightarrow> ''bool'' | JNumber n \<Rightarrow> ''number''
      | JString s \<Rightarrow> ''string'' | JArray vs \<Rightarrow> ''array'' | JObject ms \<Rightarrow> ''object'')"

definition saveError :: "error \<Rightarrow> error option \<Rightarrow> error option" where
  "saveError err saved = (case saved of None \<Rightarrow> Some err | Some e \<Rightarrow> Some e)"

text \<open>\<^verbatim>\<open>strconv.ParseInt(s, 10, 64)\<close> on the literal of a JSON number: an optional minus
  sign and digits, within 64 bits.\<close>

definition ParseInt :: "string \<Rightarrow> int option" where
  "ParseInt s =
     (let digits = (if s \<noteq> [] \<and> hd s = CHR ''-'' then drop 1 s else s);
          n = foldl (\<lambda>n c. 10 * n + int (of_char c - of_char CHR ''0'')) 0 digits;
          n = (if s \<noteq> [] \<and> hd s = CHR ''-'' then - n else n)
      in if digits \<noteq> [] \<and> list_all isDigit digits \<and> - (2 ^ 63) \<le> n \<and> n < 2 ^ 63
         then Some n else None)"

definition store_string :: "json \<Rightarrow> string \<Rightarrow> error option \<Rightarrow> string \<times> error option" where
  "store_string v cur saved =
     (case v of
        JNull \<Rightarrow> (cur, saved)
      | JString raw \<Rightarrow> (case unquote raw of None \<Rightarrow> (cur, saved) | Some t \<Rightarrow> (t, saved))
      | _ \<Rightarrow> (cur, saveError (UnmarshalTypeError (value_kind v)) saved))"

definition store_int :: "json \<Rightarrow> int \<Rightarrow> error option \<Rightarrow> int \<times> error option" where
  "store_int v cur saved =
     (case v of
        JNull \<Rightarrow> (cur, saved)
      | JNumber item \<Rightarrow>
          (case ParseInt item of
             None \<Rightarrow> (cur, saveError (UnmarshalTypeError (''number '' @ item)) saved)
           | Some n \<Rightarrow> (n, saved))
      | _ \<Rightarrow> (cur, saveError (UnmarshalTypeError (value_kind v)) saved))"

text \<open>The zero \<^verbatim>\<open>time.Time\<close> is the first instant of year 1.\<close>

definition zero_Time :: int where
  "zero_Time = - 62135596800 * 1000000000"

text \<open>\<^verbatim>\<open>Time.UnmarshalJSON\<close>: \<^verbatim>\<open>null\<close> changes nothing; a string is parsed as it stands
  between the quotes; anything else is an error. The error of an \<^verbatim>\<open>Unmarshaler\<close> ends the
  decoding at once.\<close>

definition Time_UnmarshalJSON :: "(string \<Rightarrow> error + int) \<Rightarrow> json \<Rightarrow> int \<Rightarrow> int \<times> error option" where
  "Time_UnmarshalJSON parseStrictRFC3339 v cur =
     (case v of
        JNull \<Rightarrow> (cur, None)
      | JString raw \<Rightarrow>
          (case parseStrictRFC3339 raw of
             Inl err \<Rightarrow> (zero_Time, Some err)
           | Inr t \<Rightarrow> (t, None))
      | _ \<Rightarrow> (cur, Some TimeNotString))"

definition zero_Telemetry :: Telemetry where
  "zero_Telemetry = \<lparr>SatID = [], NoradCatID = 0, Transmitter = [], AppSource = [],
     Decoded = [], Frame = [], Observer = [], Timestamp = zero_Time, Version = [],
     ObservationID = 0, StationID = 0\<rparr>"

definition zero_TelemetryResponse :: TelemetryResponse where
  "zero_TelemetryResponse = \<lparr>Next = [], Prev = [], Results = None\<rparr>"

text \<open>The results of the functions below are the struct, the saved error and the error
  that ended the decoding, if any.\<close>

definition decode_Telemetry_field ::
  "(string \<Rightarrow> error + int) \<Rightarrow> string \<Rightarrow> json \<Rightarrow> Telemetry \<Rightarrow> error option \<Rightarrow>
   Telemetry \<times> error option \<times> error option" where
  "decode_Telemetry_field pt key v t saved =
     (let name = field_of_key key in
      if name = Some ''SAT_ID'' then
        (t\<lparr>SatID := fst (store_string v (SatID t) saved)\<rparr>,
         snd (store_string v (SatID t) saved), None)
      else if name = Some ''NORAD_CAT_ID'' then
        (t\<lparr>NoradCatID := fst (store_int v (NoradCatID t) saved)\<rparr>,
         snd (store_int v (NoradCatID t) saved), None)
      else if name = Some ''TRANSMITTER'' then
        (t\<lparr>Transmitter := fst (store_string v (Transmitter t) saved)\<rparr>,
         snd (store_string v (Transmitter t) saved), None)
      else if name = Some ''APP_SOURCE'' then
        (t\<lparr>AppSource := fst (store_string v (AppSource t) saved)\<rparr>,
         snd (store_string v (AppSource t) saved), None)
      else if name = Some ''DECODED'' then
        (t\<lparr>Decoded := fst (store_string v (Decoded t) saved)\<rparr>,
         snd (store_string v (Decoded t) saved), None)
      else if name = Some ''FRAME'' then
        (t\<lparr>Frame := fst (store_string v (Frame t) saved)\<rparr>,
         snd (store_string v (Frame t) saved), None)
      else if name = Some ''OBSERVER'' then
        (t\<lparr>Observer := fst (store_string v (Observer t) saved)\<rparr>,
         snd (store_string v (Observer t) saved), None)
      else if name = Some ''TIMESTAMP'' then
        (t\<lparr>Timestamp := fst (Time_UnmarshalJSON pt v (Timestamp t))\<rparr>, saved,
         snd (Time_UnmarshalJSON pt v (Timestamp t)))
      else if name = Some ''VERSION'' then
        (t\<lparr>Version := fst (store_string v (Version t) saved)\<rparr>,
         snd (store_string v (Version t) saved), None)
      else if name = Some ''OBSERVATION_ID'' then
        (t\<lparr>ObservationID := fst (store_int v (ObservationID t) saved)\<rparr>,
         snd (store_int v (ObservationID t) saved), None)
      else if name = Some ''STATION_ID'' then
        (t\<lparr>StationID := fst (store_int v (StationID t) saved)\<rparr>,
         snd (store_int v (StationID t) saved), None)
      else (t, saved, None))"

fun decode_Telemetry ::
  "(string \<Rightarrow> error + int) \<Rightarrow> (string \<times> json) list \<Rightarrow> Telemetry \<Rightarrow> error option \<Rightarrow>
   Telemetry \<times> error option \<times> error option" where
  "decode_Telemetry pt [] t saved = (t, saved, None)"
| "decode_Telemetry pt ((key, v) # ms) t saved =
     (case decode_Telemetry_field pt key v t saved of
        (t', saved', Some err) \<Rightarrow> (t', saved', Some err)
      | (t', saved', None) \<Rightarrow> decode_Telemetry pt ms t' saved')"

text \<open>One element of an array for \<^verbatim>\<open>results\<close>, decoded into the element \<open>t\<close> of the slice:
  an object is stored field by field, \<^verbatim>\<open>null\<close> changes nothing, any other value is an error
  that is saved.\<close>

definition decode_element ::
  "(string \<Rightarrow> error + int) \<Rightarrow> json \<Rightarrow> Telemetry \<Rightarrow> error option \<Rightarrow>
   Telemetry \<times> error option \<times> error option" where
  "decode_element pt v t saved =
     (case v of
        JObject ms \<Rightarrow> decode_Telemetry pt ms t saved
      | JNull \<Rightarrow> (t, saved, None)
      | _ \<Rightarrow> (t, saveError (UnmarshalTypeError (value_kind v)) saved, None))"

text \<open>The elements of an array, in order. The element with index \<open>i\<close> is decoded into the
  element \<open>i\<close> of the backing array of the slice, and into a zero value beyond it (the
  slice grows, and new memory is zero). \<open>old\<close> is what is left of the backing array,
  \<open>front\<close> the elements decoded so far.\<close>

fun decode_elements ::
  "(string \<Rightarrow> error + int) \<Rightarrow> json list \<Rightarrow> Telemetry list \<Rightarrow> Telemetry list \<Rightarrow>
   error option \<Rightarrow> Telemetry list \<times> Telemetry list \<times> error option \<times> error option" where
  "decode_elements pt [] front old saved = (front, old, saved, None)"
| "decode_elements pt (v # vs) front old saved =
     (case decode_element pt v (case old of [] \<Rightarrow> zero_Telemetry | t # r \<Rightarrow> t) saved of
        (t, saved', Some err) \<Rightarrow> (front @ [t], drop 1 old, saved', Some err)
      | (t, saved', None) \<Rightarrow> decode_elements pt vs (front @ [t]) (drop 1 old) saved')"

text \<open>A value for \<^verbatim>\<open>results\<close>. \<open>cur\<close> is the slice and \<open>stale\<close> the elements of its backing
  array beyond its length: an earlier, longer array for \<^verbatim>\<open>results\<close> in the same object
  leaves them there, and the library decodes into them again. \<^verbatim>\<open>null\<close> makes the slice
  nil; an array sets the length of the slice to the number of its elements (an empty
  array gives a new, empty slice); when an element ends the decoding, the slice keeps
  the length it has reached.\<close>

definition store_Results ::
  "(string \<Rightarrow> error + int) \<Rightarrow> json \<Rightarrow> Telemetry list option \<Rightarrow> Telemetry list \<Rightarrow>
   error option \<Rightarrow> Telemetry list option \<times> Telemetry list \<times> error option \<times> error option" where
  "store_Results pt v cur stale saved =
     (case v of
        JNull \<Rightarrow> (None, [], saved, None)
      | JArray vs \<Rightarrow>
          (let elems = (case cur of None \<Rightarrow> [] | Some ts \<Rightarrow> ts)
           in case decode_elements pt vs [] (elems @ stale) saved of
                (front, rest, saved', Some err) \<Rightarrow>
                  (Some (front @ take (length elems - length front) rest),
                   drop (length elems - length front) rest, saved', Some err)
              | (front, rest, saved', None) \<Rightarrow>
                  if vs = [] then (Some [], [], saved', None)
                  else (Some front, rest, saved', None))
      | _ \<Rightarrow> (cur, stale, saveError (UnmarshalTypeError (value_kind v)) saved, None))"

text \<open>The members of the top-level object, in order.\<close>

fun decode_TelemetryResponse ::
  "(string \<Rightarrow> error + int) \<Rightarrow> (string \<times> json) list \<Rightarrow> TelemetryResponse \<Rightarrow>
   Telemetry list \<Rightarrow> error option \<Rightarrow> TelemetryResponse \<times> error option \<times> error option" where
  "decode_TelemetryResponse pt [] p stale saved = (p, saved, None)"
| "decode_TelemetryResponse pt ((key, v) # ms) p stale saved =
     (let name = field_of_key key in
      if name = Some ''NEXT'' then
        decode_TelemetryResponse pt ms
          (p\<lparr>Next := fst (store_string v (Next p) saved)\<rparr>) stale
          (snd (store_string v (Next p) saved))
      else if name = Some ''PREV'' then
        decode_TelemetryResponse pt ms
          (p\<lparr>Prev := fst (store_string v (Prev p) saved)\<rparr>) stale
          (snd (store_string v (Prev p) saved))
      else if name = Some ''RESULTS'' then
        (case store_Results pt v (Results p) stale saved of
           (rs, stale', saved', Some err) \<Rightarrow> (p\<lparr>Results := rs\<rparr>, saved', Some err)
         | (rs, stale', saved', None) \<Rightarrow>
             decode_TelemetryResponse pt ms (p\<lparr>Results := rs\<rparr>) stale' saved')
      else decode_TelemetryResponse pt ms p stale saved)"

text \<open>\<^verbatim>\<open>Decode\<close> into a zero \<^verbatim>\<open>TelemetryResponse\<close>, with the parser of RFC 3339 times as
  parameter \<open>pt\<close>: the struct as it is left, and the error. The error that ended the
  decoding comes before a saved one.\<close>

definition json_Decode_TelemetryResponse ::
  "(string \<Rightarrow> error + int) \<Rightarrow> string \<Rightarrow> TelemetryResponse \<times> error option" where
  "json_Decode_TelemetryResponse pt body =
     (case readValue body of
        Inl err \<Rightarrow> (zero_TelemetryResponse, Some err)
      | Inr v \<Rightarrow>
          (case v of
             JNull \<Rightarrow> (zero_TelemetryResponse, None)
           | JObject ms \<Rightarrow>
               (case decode_TelemetryResponse pt ms zero_TelemetryResponse [] None of
                  (p, saved, Some err) \<Rightarrow> (p, Some err)
                | (p, saved, None) \<Rightarrow> (p, saved))
           | _ \<Rightarrow> (zero_TelemetryResponse, Some (UnmarshalTypeError (value_kind v)))))"

section \<open>The client\<close>

definition NewClient :: "string \<Rightarrow> Client" where
  "NewClient k = \<lparr>client = \<lparr>Timeout = 10 * Second\<rparr>, baseURL = const_baseURL, apiKey = k\<rparr>"

text \<open>\<^verbatim>\<open>strings.LastIndex(s, c)\<close> for one byte \<^verbatim>\<open>c\<close>: the index of its last occurrence, or
  \<open>-1\<close>.\<close>

definition LastIndex :: "string \<Rightarrow> char \<Rightarrow> int" where
  "LastIndex s c =
     (if c \<in> set s then int (length s) - 1 - int (length (takeWhile (\<lambda>x. x \<noteq> c) (rev s)))
      else - 1)"

text \<open>\<^verbatim>\<open>removeEmptyPort\<close> of \<^verbatim>\<open>net/http\<close>: a host that ends in a colon with no port loses
  the colon.\<close>

definition hasPort :: "string \<Rightarrow> bool" where
  "hasPort s = (LastIndex s CHR '':'' > LastIndex s CHR '']'')"

definition removeEmptyPort :: "string \<Rightarrow> string" where
  "removeEmptyPort host =
     (if hasPort host then (if host \<noteq> [] \<and> last host = CHR '':'' then butlast host else host)
      else host)"

text \<open>\<^verbatim>\<open>http.NewRequest(method, url, nil)\<close> parses \<^verbatim>\<open>url\<close> with \<^verbatim>\<open>url.Parse\<close> and returns its
  error, or a request that carries the parsed URL (its host without an empty port) and
  an empty header. (It also rejects a method that is not a token; the package passes
  \<^verbatim>\<open>"GET"\<close> only.)\<close>

definition http_NewRequest :: "env \<Rightarrow> string \<Rightarrow> string \<Rightarrow> error + request" where
  "http_NewRequest env method url =
     (case url_Parse env url of
        Inl err \<Rightarrow> Inl err
      | Inr u \<Rightarrow>
          let u = u\<lparr>Host := removeEmptyPort (Host u)\<rparr>
          in Inr \<lparr>Method = method, URL = u, Header = Map.empty, ReqHost = Host u\<rparr>)"

text \<open>\<^verbatim>\<open>Header.Set(key, value)\<close> replaces the values of \<^verbatim>\<open>key\<close> by the one value. (The
  library first puts \<^verbatim>\<open>key\<close> into canonical form; \<^verbatim>\<open>"Authorization"\<close>, the only key
  the package sets, is canonical.)\<close>

definition Header_Set :: "(string \<rightharpoonup> string list) \<Rightarrow> string \<Rightarrow> string \<Rightarrow> (string \<rightharpoonup> string list)" where
  "Header_Set h key val = h(key \<mapsto> [val])"

text \<open>\<^verbatim>\<open>http.Client.Do\<close>: the request goes out (it is appended to the wire) and the
  round trip answers. The result is Go's pair of a response pointer and an error.\<close>

definition client_Do :: "env \<Rightarrow> http_Client \<Rightarrow> request \<Rightarrow> wire \<Rightarrow> (response option \<times> error option) \<times> wire" where
  "client_Do env hc req w =
     ((case http_RoundTrip env hc w req of
         Inl err \<Rightarrow> (None, Some err)
       | Inr resp \<Rightarrow> (Some resp, None)),
      w @ [req])"

text \<open>\<^verbatim>\<open>Client.Get\<close>, lines 37 to 47: the URL \<^verbatim>\<open>u\<close> with the query parameters added.\<close>

definition Get_URL :: "env \<Rightarrow> Client \<Rightarrow> string \<Rightarrow> urlParam list \<Rightarrow> error + URL" where
  "Get_URL env c endpoint params =
     (case url_Parse env (baseURL c @ endpoint) of
        Inl err \<Rightarrow> Inl err
      | Inr u \<Rightarrow>
          let q = URL_Query u;
              q = fold (\<lambda>param q. Values_Add q (Key param) (Value param)) params q
          in Inr (u\<lparr>RawQuery := Values_Encode q\<rparr>))"

text \<open>\<^verbatim>\<open>Client.Get\<close>, the whole function: the request for \<^verbatim>\<open>u.String()\<close>, the
  authorization header, the call.\<close>

definition Get :: "env \<Rightarrow> Client \<Rightarrow> string \<Rightarrow> urlParam list \<Rightarrow> wire \<Rightarrow> (response option \<times> error option) \<times> wire" where
  "Get env c endpoint params w =
     (case Get_URL env c endpoint params of
        Inl err \<Rightarrow> ((None, Some err), w)
      | Inr u \<Rightarrow>
          (case http_NewRequest env ''GET'' (url_String env u) of
             Inl err \<Rightarrow> ((None, Some err), w)
           | Inr req \<Rightarrow>
               let req = (if apiKey c \<noteq> [] then
                            req\<lparr>Header := Header_Set (Header req) ''Authorization'' (''Token '' @ apiKey c)\<rparr>
                          else req)
               in client_Do env (client c) req w))"

text \<open>\<^verbatim>\<open>Client.GetTelemetryResponse\<close>. \<^verbatim>\<open>resp.Body\<close> dereferences \<^verbatim>\<open>resp\<close>: a nil response
  with a nil error would panic. \<^verbatim>\<open>Decode\<close> fills the local \<^verbatim>\<open>telemetryResponse\<close>; when it
  returns an error the function returns nil and not the address of that struct.\<close>

definition GetTelemetryResponse :: "env \<Rightarrow> Client \<Rightarrow> string \<Rightarrow> wire \<Rightarrow> (TelemetryResponse option \<times> error option) outcome \<times> wire" where
  "GetTelemetryResponse env c satelliteID w =
     (case Get env c ''/telemetry/''
             [\<lparr>Key = ''sat_id'', Value = satelliteID\<rparr>, \<lparr>Key = ''format'', Value = ''json''\<rparr>] w of
        ((resp, Some err), w') \<Rightarrow> (Returns (None, Some err), w')
      | ((None, None), w') \<Rightarrow> (Panics, w')
      | ((Some resp, None), w') \<Rightarrow>
          (case json_Decode env (Body resp) of
             (telemetryResponse, Some err) \<Rightarrow> (Returns (None, Some err), w')
           | (telemetryResponse, None) \<Rightarrow> (Returns (Some telemetryResponse, None), w')))"

text \<open>\<^verbatim>\<open>Client.GetTelemetry\<close> of \<^verbatim>\<open>src/unnamed/part_000\<close>, which calls
  \<^verbatim>\<open>GetTelemetryResponse\<close>.\<close>

definition GetTelemetry :: "env \<Rightarrow> Client \<Rightarrow> string \<Rightarrow> wire \<Rightarrow> (Telemetry list option \<times> error option) outcome \<times> wire" where
  "GetTelemetry env c satelliteID w =
     (case GetTelemetryResponse env c satelliteID w of
        (Panics, w') \<Rightarrow> (Panics, w')
      | (Returns (resp, Some err), w') \<Rightarrow> (Returns (None, Some err), w')
      | (Returns (None, None), w') \<Rightarrow> (Panics, w')
      | (Returns (Some resp, None), w') \<Rightarrow> (Returns (Results resp, None), w'))"

text \<open>\<^verbatim>\<open>Client.GetTelemetry\<close> of \<^verbatim>\<open>src/client.go\<close>, which calls \<^verbatim>\<open>Get\<close> and decodes by
  itself.\<close>

definition GetTelemetry_direct :: "env \<Rightarrow> Client \<Rightarrow> string \<Rightarrow> wire \<Rightarrow> (Telemetry list option \<times> error option) outcome \<times> wire" where
  "GetTelemetry_direct env c satelliteID w =
     (case Get env c ''/telemetry/''
             [\<lparr>Key = ''sat_id'', Value = satelliteID\<rparr>, \<lparr>Key = ''format'', Value = ''json''\<rparr>] w of
        ((resp, Some err), w') \<Rightarrow> (Returns (None, Some err), w')
      | ((None, None), w') \<Rightarrow> (Panics, w')
      | ((Some resp, None), w') \<Rightarrow>
          (case json_Decode env (Body resp) of
             (telemetryResponse, Some err) \<Rightarrow> (Returns (None, Some err), w')
           | (telemetryResponse, None) \<Rightarrow>
               (Returns (Results telemetryResponse, None), w')))"

text \<open>\<^verbatim>\<open>Client.GetTelemetryResponseNextPage\<close>. \<^verbatim>\<open>t.Next\<close> dereferences \<^verbatim>\<open>t\<close>.\<close>

definition GetTelemetryResponseNextPage :: "env \<Rightarrow> Client \<Rightarrow> TelemetryResponse option \<Rightarrow> wire \<Rightarrow> (TelemetryResponse option \<times> error option) outcome \<times> wire" where
  "GetTelemetryResponseNextPage env c t w =
     (case t of
        None \<Rightarrow> (Panics, w)
      | Some t \<Rightarrow>
          if Next t = [] then (Returns (None, None), w)
          else
            (case http_NewRequest env ''GET'' (Next t) of
               Inl err \<Rightarrow> (Returns (None, Some err), w)
             | Inr req \<Rightarrow>
                 let req = (if apiKey c \<noteq> [] then
                              req\<lparr>Header := Header_Set (Header req) ''Authorization'' (''Token '' @ apiKey c)\<rparr>
                            else req)
                 in case client_Do env (client c) req w of
                      ((resp, Some err), w') \<Rightarrow> (Returns (None, Some err), w')
                    | ((None, None), w') \<Rightarrow> (Panics, w')
                    | ((Some resp, None), w') \<Rightarrow>
                        (case json_Decode env (Body resp) of
                           (telemetryResponse, Some err) \<Rightarrow> (Returns (None, Some err), w')
                         | (telemetryResponse, None) \<Rightarrow>
                             (Returns (Some telemetryResponse, None), w'))))"

text \<open>\<^verbatim>\<open>Client.GetTelemetryResponsePrevPage\<close>: the same with \<^verbatim>\<open>t.Prev\<close>.\<close>

definition GetTelemetryResponsePrevPage :: "env \<Rightarrow> Client \<Rightarrow> TelemetryResponse option \<Rightarrow> wire \<Rightarrow> (TelemetryResponse option \<times> error option) outcome \<times> wire" where
  "GetTelemetryResponsePrevPage env c t w =
     (case t of
        None \<Rightarrow> (Panics, w)
      | Some t \<Rightarrow>
          if Prev t = [] then (Returns (None, None), w)
          else
            (case http_NewRequest env ''GET'' (Prev t) of
               Inl err \<Rightarrow> (Returns (None, Some err), w)
             | Inr req \<Rightarrow>
                 let req = (if apiKey c \<noteq> [] then
                              req\<lparr>Header := Header_Set (Header req) ''Authorization'' (''Token '' @ apiKey c)\<rparr>
                            else req)
                 in case client_Do env (client c) req w of
                      ((resp, Some err), w') \<Rightarrow> (Returns (None, Some err), w')
                    | ((None, None), w') \<Rightarrow> (Panics, w')
                    | ((Some resp, None), w') \<Rightarrow>
                        (case json_Decode env (Body resp) of
                           (telemetryResponse, Some err) \<Rightarrow> (Returns (None, Some err), w')
                         | (telemetryResponse, None) \<Rightarrow>
                             (Returns (Some telemetryResponse, None), w'))))"

section \<open>A stub server\<close>

text \<open>A request-capturing stub for the parameters: a URL parser for \<^verbatim>\<open>https\<close> URLs that
  splits off the fragment and the query, and a server with two pages for satellite
  43770, a truncated body for satellite 0, an empty object for satellite 1 and an object
  of the wrong shape for satellite 2. Its decoder
  is the decoder of section JSON, with a time parser for UTC times without fraction. On
  the URLs used below, \<open>stub_Parse\<close> and \<open>stub_String\<close> return what \<^verbatim>\<open>url.Parse\<close> and
  \<^verbatim>\<open>URL.String\<close> return.\<close>

definition stub_Parse :: "string \<Rightarrow> error + URL" where
  "stub_Parse s =
     (if list_ex (\<lambda>c. c < CHR '' '' \<or> c = CHR 0x7F) s then
        Inl (LibError ''net/url: invalid control character in URL'')
      else if take 8 s \<noteq> ''https://'' then Inl (LibError ''unsupported protocol scheme'')
      else
        let s1 = fst (Cut s CHR ''#'');
            s2 = drop 8 (fst (Cut s1 CHR ''?''))
        in Inr \<lparr>Scheme = ''https'',
                Host = takeWhile (\<lambda>c. c \<noteq> CHR ''/'') s2,
                Path = dropWhile (\<lambda>c. c \<noteq> CHR ''/'') s2,
                RawQuery = snd (Cut s1 CHR ''?''),
                Fragment = snd (Cut s CHR ''#'')\<rparr>)"

definition stub_String :: "URL \<Rightarrow> string" where
  "stub_String u =
     Scheme u @ ''://'' @ Host u @ Path u @
     (if RawQuery u = [] then [] else CHR ''?'' # RawQuery u) @
     (if Fragment u = [] then [] else CHR ''#'' # Fragment u)"

definition digits_value :: "string \<Rightarrow> int" where
  "digits_value s = foldl (\<lambda>n c. 10 * n + int (of_char c - of_char CHR ''0'')) 0 s"

definition days_from_civil :: "int \<Rightarrow> int \<Rightarrow> int \<Rightarrow> int" where
  "days_from_civil y m d =
     (let y' = (if m \<le> 2 then y - 1 else y);
          era = y' div 400;
          yoe = y' - era * 400;
          doy = (153 * (if m > 2 then m - 3 else m + 9) + 2) div 5 + d - 1;
          doe = yoe * 365 + yoe div 4 - yoe div 100 + doy
      in era * 146097 + doe - 719468)"

definition days_in_month :: "int \<Rightarrow> int \<Rightarrow> int" where
  "days_in_month y m =
     (if m = 2 then (if y mod 4 = 0 \<and> (y mod 100 \<noteq> 0 \<or> y mod 400 = 0) then 29 else 28)
      else if m = 4 \<or> m = 6 \<or> m = 9 \<or> m = 11 then 30 else 31)"

definition stub_parse_time :: "string \<Rightarrow> error + int" where
  "stub_parse_time s =
     (let y = digits_value (take 4 s); mo = digits_value (take 2 (drop 5 s));
          d = digits_value (take 2 (drop 8 s)); h = digits_value (take 2 (drop 11 s));
          mi = digits_value (take 2 (drop 14 s)); sec = digits_value (take 2 (drop 17 s))
      in if length s = 20 \<and> list_all isDigit (take 4 s @ take 2 (drop 5 s) @ take 2 (drop 8 s) @
              take 2 (drop 11 s) @ take 2 (drop 14 s) @ take 2 (drop 17 s)) \<and>
            [s ! 4, s ! 7, s ! 10, s ! 13, s ! 16, s ! 19] = ''--T::Z'' \<and>
            1 \<le> mo \<and> mo \<le> 12 \<and> 1 \<le> d \<and> d \<le> days_in_month y mo \<and>
            h < 24 \<and> mi < 60 \<and> sec < 60
         then Inr ((((days_from_civil y mo d * 24 + h) * 60 + mi) * 60 + sec) * 1000000000)
         else Inl (LibError ''parsing time: not a UTC time of RFC 3339''))"

definition record1 :: Telemetry where
  "record1 = \<lparr>SatID = ''43770'', NoradCatID = 43770, Transmitter = [], AppSource = ''network'',
     Decoded = [], Frame = ''C0FFEE'', Observer = [], Timestamp = 1672531200000000000,
     Version = [], ObservationID = 1, StationID = 1\<rparr>"

definition page1 :: TelemetryResponse where
  "page1 = \<lparr>Next = ''https://db.satnogs.org/api/telemetry/?sat_id=43770&page=2'', Prev = [],
     Results = Some [record1]\<rparr>"

definition page2 :: TelemetryResponse where
  "page2 = \<lparr>Next = [], Prev = ''https://db.satnogs.org/api/telemetry/?sat_id=43770&page=1'',
     Results = Some []\<rparr>"

text \<open>A page whose next link ends in \<^verbatim>\<open>#\<close>: an absolute URL with an empty fragment.\<close>

definition page_fragment :: TelemetryResponse where
  "page_fragment = \<lparr>Next = ''https://db.satnogs.org/api/telemetry/?sat_id=43770&page=2#'',
     Prev = [], Results = Some []\<rparr>"

text \<open>The bodies the server sends: the two pages as JSON, a body cut off after
  \<^verbatim>\<open>{"results":\<close>, the empty object, and an object whose \<^verbatim>\<open>results\<close> is a number.\<close>

definition body_page1 :: string where
  \<open>body_page1 = ''{"next":"https://db.satnogs.org/api/telemetry/?sat_id=43770&page=2","prev":"","results":[{"sat_id":"43770","norad_cat_id":43770,"transmitter":"","app_source":"network","decoded":"","frame":"C0FFEE","observer":"","timestamp":"2023-01-01T00:00:00Z","version":"","observation_id":1,"station_id":1}]}''\<close>

definition body_page2 :: string where
  \<open>body_page2 = ''{"next":"","prev":"https://db.satnogs.org/api/telemetry/?sat_id=43770&page=1","results":[]}''\<close>

definition body_truncated :: string where
  \<open>body_truncated = ''{"results":''\<close>

definition body_empty_object :: string where
  \<open>body_empty_object = ''{}''\<close>

definition body_wrong_shape :: string where
  \<open>body_wrong_shape = ''{"next":"https://db.satnogs.org/api/telemetry/?sat_id=2&page=2","results":7}''\<close>

definition stub_RoundTrip :: "http_Client \<Rightarrow> wire \<Rightarrow> request \<Rightarrow> error + response" where
  "stub_RoundTrip hc w req =
     (if stub_String (URL req) = ''https://db.satnogs.org/api/telemetry/?format=json&sat_id=43770''
         \<or> stub_String (URL req) = ''https://db.satnogs.org/api/telemetry/?sat_id=43770&page=1''
      then Inr \<lparr>StatusCode = 200, Body = body_page1\<rparr>
      else if stub_String (URL req) = ''https://db.satnogs.org/api/telemetry/?sat_id=43770&page=2''
      then Inr \<lparr>StatusCode = 200, Body = body_page2\<rparr>
      else if stub_String (URL req) = ''https://db.satnogs.org/api/telemetry/?format=json&sat_id=0''
      then Inr \<lparr>StatusCode = 200, Body = body_truncated\<rparr>
      else if stub_String (URL req) = ''https://db.satnogs.org/api/telemetry/?format=json&sat_id=1''
      then Inr \<lparr>StatusCode = 200, Body = body_empty_object\<rparr>
      else if stub_String (URL req) = ''https://db.satnogs.org/api/telemetry/?format=json&sat_id=2''
      then Inr \<lparr>StatusCode = 200, Body = body_wrong_shape\<rparr>
      else Inl (LibError ''connection refused''))"

definition stub_env :: env where
  "stub_env = \<lparr>url_Parse = stub_Parse, url_String = stub_String,
     http_RoundTrip = stub_RoundTrip,
     json_Decode = json_Decode_TelemetryResponse stub_parse_time\<rparr>"

section \<open>Escaping and parsing are inverse\<close>

declare parseQuery.simps [simp del]

lemma upperhex_nth:
  assumes "d < 16"
  shows "ishex (upperhex ! d)" and "unhex (upperhex ! d) = d"
    and "upperhex ! d \<noteq> CHR ''&''" and "upperhex ! d \<noteq> CHR ''=''" and "upperhex ! d \<noteq> CHR '';''"
proof -
  from assms have "d \<in> set [0..<16]" by simp
  then have d: "d \<in> {0,1,2,3,4,5,6,7,8,9,10,11,12,13,14,15}" 
    by (simp add: upt_rec numeral_eq_Suc) 
  from d show "ishex (upperhex ! d)"
    by (auto simp: upperhex_def ishex_def less_eq_char_def)
  from d show "unhex (upperhex ! d) = d"
    by (auto simp: upperhex_def unhex_def less_eq_char_def)
  from d show "upperhex ! d \<noteq> CHR ''&''" "upperhex ! d \<noteq> CHR ''=''" "upperhex ! d \<noteq> CHR '';''"
    by (auto simp: upperhex_def)
qed

lemma of_char_nibbles: "of_char (c::char) div 16 < (16::nat)" "of_char (c::char) mod 16 < (16::nat)"
proof -
  have "of_char c < (256::nat)" by (rule nat_of_char_less_256) 
  then show "of_char (c::char) div 16 < (16::nat)" by arith
  show "of_char (c::char) mod 16 < (16::nat)" by simp
qed

lemma char_split: "char_of (of_char c div 16 * 16 + of_char c mod (16::nat)) = c"
  by simp

lemma unescaped_not_special:
  "\<not> shouldEscape c \<Longrightarrow> c \<noteq> CHR ''%'' \<and> c \<noteq> CHR ''+'' \<and> c \<noteq> CHR ''&'' \<and> c \<noteq> CHR ''='' \<and> c \<noteq> CHR '';''"
  by (auto simp: shouldEscape_def less_eq_char_def)

lemma QueryUnescape_QueryEscape: "QueryUnescape (QueryEscape s) = Inr s"
proof (induction s)
  case Nil
  show ?case by simp
next
  case (Cons c s)
  show ?case
  proof (cases "shouldEscape c")
    case False
    with Cons unescaped_not_special[of c] show ?thesis by simp
  next
    case True
    note h = upperhex_nth(1,2)[OF of_char_nibbles(1)[of c]] upperhex_nth(1,2)[OF of_char_nibbles(2)[of c]]
    with True Cons char_split[of c] show ?thesis by simp
  qed
qed

lemma QueryEscape_chars:
  "CHR ''&'' \<notin> set (QueryEscape s)" "CHR ''='' \<notin> set (QueryEscape s)" "CHR '';'' \<notin> set (QueryEscape s)"
proof (induction s)
  case Nil
  { case 1 show ?case by simp }
  { case 2 show ?case by simp }
  { case 3 show ?case by simp }
next
  case (Cons c s)
  note h = upperhex_nth(3,4,5)[OF of_char_nibbles(1)[of c]] upperhex_nth(3,4,5)[OF of_char_nibbles(2)[of c]]
  { case 1 with Cons h unescaped_not_special[of c] show ?case by auto }
  { case 2 with Cons h unescaped_not_special[of c] show ?case by auto }
  { case 3 with Cons h unescaped_not_special[of c] show ?case by auto }
qed

lemma Cut_found: "sep \<notin> set a \<Longrightarrow> Cut (a @ sep # b) sep = (a, b)"
  by (induction a) (auto simp: Cut_def)

lemma Cut_absent: "sep \<notin> set a \<Longrightarrow> Cut a sep = (a, [])"
  by (induction a) (auto simp: Cut_def)

lemma parseQuery_Nil: "parseQuery m err [] = (m, err)"
  by (simp add: parseQuery.simps)

lemma parseQuery_segment:
  assumes "rest = [] \<or> (\<exists>r. rest = CHR ''&'' # r)"
  shows "parseQuery m err (QueryEscape k @ CHR ''='' # QueryEscape v @ rest) =
         parseQuery (Values_Add m k v) err (drop 1 rest)"
proof -
  let ?seg = "QueryEscape k @ CHR ''='' # QueryEscape v"
  have amp: "CHR ''&'' \<notin> set ?seg" and semi: "CHR '';'' \<notin> set ?seg"
    using QueryEscape_chars[of k] QueryEscape_chars[of v] by auto
  have "Cut (?seg @ rest) CHR ''&'' = (?seg, drop 1 rest)"
    using assms Cut_found[OF amp] Cut_absent[OF amp] by auto
  then have cut1: "Cut (QueryEscape k @ CHR ''='' # QueryEscape v @ rest) CHR ''&'' = (?seg, drop 1 rest)"
    by simp
  have cut2: "Cut ?seg CHR ''='' = (QueryEscape k, QueryEscape v)"
    by (rule Cut_found[OF QueryEscape_chars(2)])
  show ?thesis
    apply (subst parseQuery.simps)
    using semi by (simp add: cut1 cut2 QueryUnescape_QueryEscape del: One_nat_def)
qed

lemma fold_write_pair:
  "fold (\<lambda>(k, val) buf. write_pair buf k val) ps buf =
     buf @ (if buf = [] then fold (\<lambda>(k, val) buf. write_pair buf k val) ps []
            else if ps = [] then []
            else CHR ''&'' # fold (\<lambda>(k, val) buf. write_pair buf k val) ps [])"
proof (induction ps arbitrary: buf)
  case Nil
  show ?case by simp
next
  case (Cons p ps)
  obtain k v where p: "p = (k, v)" by (cases p)
  have ne: "write_pair b k v \<noteq> []" for b by (simp add: write_pair_def)
  show ?case
    using Cons[of "write_pair buf k v"] Cons[of "write_pair [] k v"] ne
    by (simp add: p) (simp add: write_pair_def)
qed

lemma parseQuery_fold_write_pair:
  "parseQuery m err (fold (\<lambda>(k, val) buf. write_pair buf k val) ps []) =
     (fold (\<lambda>(k, val) m. Values_Add m k val) ps m, err)"
proof (induction ps arbitrary: m)
  case Nil
  show ?case by (simp add: parseQuery_Nil)
next
  case (Cons p ps)
  obtain k v where p: "p = (k, v)" by (cases p)
  let ?J = "fold (\<lambda>(k, val) buf. write_pair buf k val) ps []"
  let ?rest = "if ps = [] then [] else CHR ''&'' # ?J"
  have "fold (\<lambda>(k, val) buf. write_pair buf k val) (p # ps) [] =
        QueryEscape k @ CHR ''='' # QueryEscape v @ ?rest"
    using fold_write_pair[of ps "write_pair [] k v"] by (simp add: p write_pair_def)
  moreover have "drop 1 ?rest = ?J" by simp
  moreover have "?rest = [] \<or> (\<exists>r. ?rest = CHR ''&'' # r)" by simp
  ultimately show ?case
    using parseQuery_segment[of ?rest m err k v] Cons[of "Values_Add m k v"] by (simp add: p)
qed

lemma Values_index_Add:
  "Values_index (Values_Add m k v) k' = (if k' = k then Values_index m k @ [v] else Values_index m k')"
  by (simp add: Values_index_def Values_Add_def update_conv')

lemma Values_index_fold_Add:
  "Values_index (fold (\<lambda>(k, val) m. Values_Add m k val) ps m) k =
     Values_index m k @ map snd (filter (\<lambda>p. fst p = k) ps)"
  by (induction ps arbitrary: m) (auto simp: Values_index_Add)

lemma distinct_Values_Add: "distinct (map fst m) \<Longrightarrow> distinct (map fst (Values_Add m k v))"
  by (simp add: Values_Add_def distinct_update)

lemma distinct_parseQuery:
  "distinct (map fst m) \<Longrightarrow> distinct (map fst (fst (parseQuery m err q)))"
proof (induction m err q rule: parseQuery.induct)
  case (1 m err query)
  show ?case
    apply (subst parseQuery.simps)
    using 1 by (auto simp: Let_def distinct_Values_Add parseQuery_Nil split: sum.splits)
qed

lemma fold_values_pairs:
  "fold (\<lambda>val buf. write_pair buf k val) vs buf =
   fold (\<lambda>(k, val) buf. write_pair buf k val) (map (Pair k) vs) buf"
  by (induction vs arbitrary: buf) simp_all

lemma fold_keys_pairs:
  "fold (\<lambda>k buf. fold (\<lambda>val buf. write_pair buf k val) (Values_index v k) buf) keys buf =
   fold (\<lambda>(k, val) buf. write_pair buf k val)
     (concat (map (\<lambda>k. map (Pair k) (Values_index v k)) keys)) buf"
  by (induction keys arbitrary: buf) (simp_all add: fold_values_pairs)

lemma filter_key_pairs:
  "filter (\<lambda>p. fst p = k) (map (Pair a) vs) = (if a = k then map (Pair a) vs else [])"
  by (induction vs) simp_all

lemma pairs_of_key:
  "distinct keys \<Longrightarrow>
   map snd (filter (\<lambda>p. fst p = k) (concat (map (\<lambda>k. map (Pair k) (Values_index v k)) keys))) =
   (if k \<in> set keys then Values_index v k else [])"
proof (induction keys)
  case Nil
  show ?case by simp
next
  case (Cons a keys)
  have snd_pair: "map snd (map (Pair a) vs) = vs" for vs :: "string list"
    by (induction vs) simp_all
  from Cons show ?case
    by (auto simp add: filter_key_pairs snd_pair simp del: map_map)
qed

lemma Values_index_Nil: "Values_index [] k = []"
  by (simp add: Values_index_def)

lemma Values_index_absent: "k \<notin> fst ` set v \<Longrightarrow> Values_index v k = []"
  by (simp add: Values_index_def map_of_eq_None_iff[THEN iffD2])

lemma ParseQuery_Values_Encode:
  assumes "distinct (map fst v)"
  shows "snd (ParseQuery (Values_Encode v)) = None"
    and "Values_index (fst (ParseQuery (Values_Encode v))) k = Values_index v k"
proof -
  let ?keys = "sort (map fst v)"
  let ?ps = "concat (map (\<lambda>k. map (Pair k) (Values_index v k)) ?keys)"
  have enc: "Values_Encode v = fold (\<lambda>(k, val) buf. write_pair buf k val) ?ps []"
    by (cases v) (simp_all add: Values_Encode_def fold_keys_pairs)
  have parsed: "ParseQuery (Values_Encode v) = (fold (\<lambda>(k, val) m. Values_Add m k val) ?ps [], None)"
    by (simp add: ParseQuery_def enc parseQuery_fold_write_pair)
  show "snd (ParseQuery (Values_Encode v)) = None"
    by (simp add: parsed)
  have keys: "distinct ?keys" "set ?keys = fst ` set v"
    using assms by simp_all
  have "Values_index (fst (ParseQuery (Values_Encode v))) k =
        (if k \<in> fst ` set v then Values_index v k else [])"
    using pairs_of_key[OF keys(1), of k v] keys(2)
    by (simp add: parsed Values_index_fold_Add Values_index_Nil)
  then show "Values_index (fst (ParseQuery (Values_Encode v))) k = Values_index v k"
    by (simp add: Values_index_absent)
qed

lemma distinct_URL_Query: "distinct (map fst (URL_Query u))"
  by (simp add: URL_Query_def ParseQuery_def distinct_parseQuery)

lemma distinct_fold_Add:
  "distinct (map fst q) \<Longrightarrow>
   distinct (map fst (fold (\<lambda>param q. Values_Add q (Key param) (Value param)) params q))"
  by (induction params arbitrary: q) (simp_all add: distinct_Values_Add)

lemma Values_index_fold_params:
  "Values_index (fold (\<lambda>param q. Values_Add q (Key param) (Value param)) params q) k =
   Values_index q k @ map Value (filter (\<lambda>param. Key param = k) params)"
  by (induction params arbitrary: q) (auto simp: Values_index_Add)

lemma Get_URL_query:
  assumes "Get_URL env c endpoint params = Inr u"
  shows "\<exists>u0. url_Parse env (baseURL c @ endpoint) = Inr u0 \<and>
           u = u0\<lparr>RawQuery := RawQuery u\<rparr> \<and>
           snd (ParseQuery (RawQuery u)) = None \<and>
           (\<forall>k. Values_index (fst (ParseQuery (RawQuery u))) k =
                Values_index (URL_Query u0) k @ map Value (filter (\<lambda>param. Key param = k) params))"
proof (cases "url_Parse env (baseURL c @ endpoint)")
  case (Inl err)
  with assms show ?thesis by (simp add: Get_URL_def)
next
  case (Inr u0)
  let ?q = "fold (\<lambda>param q. Values_Add q (Key param) (Value param)) params (URL_Query u0)"
  from Inr assms have u: "u = u0\<lparr>RawQuery := Values_Encode ?q\<rparr>"
    by (simp add: Get_URL_def Let_def)
  have d: "distinct (map fst ?q)"
    by (rule distinct_fold_Add[OF distinct_URL_Query])
  show ?thesis
    using Inr ParseQuery_Values_Encode[OF d]
    by (simp add: u Values_index_fold_params)
qed

section \<open>Properties of the client\<close>

subsection \<open>What each function sends\<close>

lemma Get_wire:
  "Get env c endpoint params w =
     (case Get_URL env c endpoint params of
        Inl err \<Rightarrow> ((None, Some err), w)
      | Inr u \<Rightarrow>
          (case url_Parse env (url_String env u) of
             Inl err \<Rightarrow> ((None, Some err), w)
           | Inr u' \<Rightarrow>
               client_Do env (client c)
                 \<lparr>Method = ''GET'', URL = u'\<lparr>Host := removeEmptyPort (Host u')\<rparr>,
                  Header = (if apiKey c = [] then Map.empty
                            else [''Authorization'' \<mapsto> [''Token '' @ apiKey c]]),
                  ReqHost = removeEmptyPort (Host u')\<rparr> w))"
  by (simp add: Get_def http_NewRequest_def Header_Set_def Let_def split: sum.splits)

lemma Get_sent:
  "snd (Get env c endpoint params w) = w \<or>
   (\<exists>u u'. Get_URL env c endpoint params = Inr u \<and>
        url_Parse env (url_String env u) = Inr u' \<and>
        snd (Get env c endpoint params w) =
          w @ [\<lparr>Method = ''GET'', URL = u'\<lparr>Host := removeEmptyPort (Host u')\<rparr>,
                 Header = (if apiKey c = [] then Map.empty
                           else [''Authorization'' \<mapsto> [''Token '' @ apiKey c]]),
                 ReqHost = removeEmptyPort (Host u')\<rparr>])"
  by (simp add: Get_wire client_Do_def split: sum.splits)

lemma GetTelemetryResponse_wire:
  "snd (GetTelemetryResponse env c satelliteID w) =
   snd (Get env c ''/telemetry/''
          [\<lparr>Key = ''sat_id'', Value = satelliteID\<rparr>, \<lparr>Key = ''format'', Value = ''json''\<rparr>] w)"
  by (simp add: GetTelemetryResponse_def split: prod.splits option.splits)

lemma GetTelemetry_direct_wire:
  "snd (GetTelemetry_direct env c satelliteID w) =
   snd (Get env c ''/telemetry/''
          [\<lparr>Key = ''sat_id'', Value = satelliteID\<rparr>, \<lparr>Key = ''format'', Value = ''json''\<rparr>] w)"
  by (simp add: GetTelemetry_direct_def split: prod.splits option.splits)

lemma GetTelemetry_wire:
  "snd (GetTelemetry env c satelliteID w) = snd (GetTelemetryResponse env c satelliteID w)"
  by (simp add: GetTelemetry_def split: prod.splits option.splits outcome.splits)

lemma NextPage_wire:
  "snd (GetTelemetryResponseNextPage env c (Some t) w) =
     (if Next t = [] then w
      else case url_Parse env (Next t) of
             Inl err \<Rightarrow> w
           | Inr u \<Rightarrow>
               w @ [\<lparr>Method = ''GET'', URL = u\<lparr>Host := removeEmptyPort (Host u)\<rparr>,
                      Header = (if apiKey c = [] then Map.empty
                                else [''Authorization'' \<mapsto> [''Token '' @ apiKey c]]),
                      ReqHost = removeEmptyPort (Host u)\<rparr>])"
  by (simp add: GetTelemetryResponseNextPage_def http_NewRequest_def Header_Set_def Let_def
        client_Do_def split: sum.splits prod.splits option.splits)

lemma PrevPage_wire:
  "snd (GetTelemetryResponsePrevPage env c (Some t) w) =
     (if Prev t = [] then w
      else case url_Parse env (Prev t) of
             Inl err \<Rightarrow> w
           | Inr u \<Rightarrow>
               w @ [\<lparr>Method = ''GET'', URL = u\<lparr>Host := removeEmptyPort (Host u)\<rparr>,
                      Header = (if apiKey c = [] then Map.empty
                                else [''Authorization'' \<mapsto> [''Token '' @ apiKey c]]),
                      ReqHost = removeEmptyPort (Host u)\<rparr>])"
  by (simp add: GetTelemetryResponsePrevPage_def http_NewRequest_def Header_Set_def Let_def
        client_Do_def split: sum.splits prod.splits option.splits)

lemma Get_sent_query:
  "snd (Get env c endpoint params w) = w \<or>
   (\<exists>u0 u u'. url_Parse env (baseURL c @ endpoint) = Inr u0 \<and>
        Get_URL env c endpoint params = Inr u \<and>
        u = u0\<lparr>RawQuery := RawQuery u\<rparr> \<and>
        url_Parse env (url_String env u) = Inr u' \<and>
        snd (Get env c endpoint params w) =
          w @ [\<lparr>Method = ''GET'', URL = u'\<lparr>Host := removeEmptyPort (Host u')\<rparr>,
                 Header = (if apiKey c = [] then Map.empty
                           else [''Authorization'' \<mapsto> [''Token '' @ apiKey c]]),
                 ReqHost = removeEmptyPort (Host u')\<rparr>] \<and>
        snd (ParseQuery (RawQuery u)) = None \<and>
        (\<forall>k. Values_index (fst (ParseQuery (RawQuery u))) k =
             Values_index (URL_Query u0) k @ map Value (filter (\<lambda>param. Key param = k) params)))"
proof -
  from Get_sent[of env c endpoint params w] show ?thesis
  proof
    assume "snd (Get env c endpoint params w) = w"
    then show ?thesis by simp
  next
    assume "\<exists>u u'. Get_URL env c endpoint params = Inr u \<and>
        url_Parse env (url_String env u) = Inr u' \<and>
        snd (Get env c endpoint params w) =
          w @ [\<lparr>Method = ''GET'', URL = u'\<lparr>Host := removeEmptyPort (Host u')\<rparr>,
                 Header = (if apiKey c = [] then Map.empty
                           else [''Authorization'' \<mapsto> [''Token '' @ apiKey c]]),
                 ReqHost = removeEmptyPort (Host u')\<rparr>]"
    then obtain u u' where u: "Get_URL env c endpoint params = Inr u"
      and u': "url_Parse env (url_String env u) = Inr u'"
      and sent: "snd (Get env c endpoint params w) =
          w @ [\<lparr>Method = ''GET'', URL = u'\<lparr>Host := removeEmptyPort (Host u')\<rparr>,
                 Header = (if apiKey c = [] then Map.empty
                           else [''Authorization'' \<mapsto> [''Token '' @ apiKey c]]),
                 ReqHost = removeEmptyPort (Host u')\<rparr>]"
      by blast
    from Get_URL_query[OF u] u u' sent show ?thesis by blast
  qed
qed

lemma Get_outcome:
  "\<exists>w'. (\<exists>err. Get env c endpoint params w = ((None, Some err), w')) \<or>
        (\<exists>resp. Get env c endpoint params w = ((Some resp, None), w'))"
  by (auto simp: Get_def client_Do_def Let_def split: sum.splits)

subsection \<open>The stub server at work\<close>

lemma NewClient_fields:
  "apiKey (NewClient k) = k" "baseURL (NewClient k) = const_baseURL"
  "client (NewClient k) = \<lparr>Timeout = 10 * Second\<rparr>"
  by (simp_all add: NewClient_def)

text \<open>\<^verbatim>\<open>NewClient\<close> sets the time limit of its \<^verbatim>\<open>http.Client\<close> to ten seconds, for every key;
  every round trip of the package is made with that \<^verbatim>\<open>http.Client\<close>. Aborting a call that
  runs longer is the library's part.\<close>

lemma NewClient_Timeout: "Timeout (client (NewClient k)) = 10 * Second"
  by (simp add: NewClient_def)

lemma stub_fields:
  "url_Parse stub_env = stub_Parse" "url_String stub_env = stub_String"
  "http_RoundTrip stub_env = stub_RoundTrip"
  "json_Decode stub_env = json_Decode_TelemetryResponse stub_parse_time"
  by (simp_all add: stub_env_def)

lemma removeEmptyPort_stub: "removeEmptyPort ''db.satnogs.org'' = ''db.satnogs.org''"
  by code_simp

lemma stub_Parse_first:
  "stub_Parse ''https://db.satnogs.org/api/telemetry/?format=json&sat_id=43770'' =
   Inr \<lparr>Scheme = ''https'', Host = ''db.satnogs.org'', Path = ''/api/telemetry/'',
        RawQuery = ''format=json&sat_id=43770'', Fragment = []\<rparr>"
  by code_simp

lemma stub_Parse_page2:
  "stub_Parse ''https://db.satnogs.org/api/telemetry/?sat_id=43770&page=2'' =
   Inr \<lparr>Scheme = ''https'', Host = ''db.satnogs.org'', Path = ''/api/telemetry/'',
        RawQuery = ''sat_id=43770&page=2'', Fragment = []\<rparr>"
  by code_simp

lemma stub_Parse_page1:
  "stub_Parse ''https://db.satnogs.org/api/telemetry/?sat_id=43770&page=1'' =
   Inr \<lparr>Scheme = ''https'', Host = ''db.satnogs.org'', Path = ''/api/telemetry/'',
        RawQuery = ''sat_id=43770&page=1'', Fragment = []\<rparr>"
  by code_simp

lemma stub_Parse_fragment:
  "stub_Parse ''https://db.satnogs.org/api/telemetry/?sat_id=43770&page=2#'' =
   Inr \<lparr>Scheme = ''https'', Host = ''db.satnogs.org'', Path = ''/api/telemetry/'',
        RawQuery = ''sat_id=43770&page=2'', Fragment = []\<rparr>"
  by code_simp




lemma stub_String_query:
  "q \<noteq> [] \<Longrightarrow>
   stub_String \<lparr>Scheme = ''https'', Host = ''db.satnogs.org'', Path = ''/api/telemetry/'',
        RawQuery = q, Fragment = []\<rparr> = ''https://db.satnogs.org/api/telemetry/?'' @ q"
  by (simp add: stub_String_def)

lemma stub_Get_URL:
  "Get_URL stub_env (NewClient k) ''/telemetry/'' params =
   Inr \<lparr>Scheme = ''https'', Host = ''db.satnogs.org'', Path = ''/api/telemetry/'',
        RawQuery = Values_Encode
          (fold (\<lambda>param q. Values_Add q (Key param) (Value param)) params []),
        Fragment = []\<rparr>"
  by (simp add: Get_URL_def stub_env_def stub_Parse_def NewClient_def const_baseURL_def Cut_def
      URL_Query_def ParseQuery_def parseQuery_Nil less_char_def)

lemma stub_Encode_telemetry:
  "Values_Encode (fold (\<lambda>param q. Values_Add q (Key param) (Value param))
     [\<lparr>Key = ''sat_id'', Value = ''43770''\<rparr>, \<lparr>Key = ''format'', Value = ''json''\<rparr>] []) =
   ''format=json&sat_id=43770''"
  "Values_Encode (fold (\<lambda>param q. Values_Add q (Key param) (Value param))
     [\<lparr>Key = ''sat_id'', Value = ''0''\<rparr>, \<lparr>Key = ''format'', Value = ''json''\<rparr>] []) =
   ''format=json&sat_id=0''"
  "Values_Encode (fold (\<lambda>param q. Values_Add q (Key param) (Value param))
     [\<lparr>Key = ''sat_id'', Value = ''1''\<rparr>, \<lparr>Key = ''format'', Value = ''json''\<rparr>] []) =
   ''format=json&sat_id=1''"
  "Values_Encode (fold (\<lambda>param q. Values_Add q (Key param) (Value param))
     [\<lparr>Key = ''sat_id'', Value = ''2''\<rparr>, \<lparr>Key = ''format'', Value = ''json''\<rparr>] []) =
   ''format=json&sat_id=2''"
  by code_simp+

lemma stub_RoundTrip_served:
  "stub_RoundTrip hc w \<lparr>Method = m, URL = \<lparr>Scheme = ''https'', Host = ''db.satnogs.org'',
       Path = ''/api/telemetry/'', RawQuery = ''format=json&sat_id=43770'', Fragment = []\<rparr>,
     Header = h, ReqHost = r\<rparr> = Inr \<lparr>StatusCode = 200, Body = body_page1\<rparr>"
  "stub_RoundTrip hc w \<lparr>Method = m, URL = \<lparr>Scheme = ''https'', Host = ''db.satnogs.org'',
       Path = ''/api/telemetry/'', RawQuery = ''sat_id=43770&page=1'', Fragment = []\<rparr>,
     Header = h, ReqHost = r\<rparr> = Inr \<lparr>StatusCode = 200, Body = body_page1\<rparr>"
  "stub_RoundTrip hc w \<lparr>Method = m, URL = \<lparr>Scheme = ''https'', Host = ''db.satnogs.org'',
       Path = ''/api/telemetry/'', RawQuery = ''sat_id=43770&page=2'', Fragment = []\<rparr>,
     Header = h, ReqHost = r\<rparr> = Inr \<lparr>StatusCode = 200, Body = body_page2\<rparr>"
  "stub_RoundTrip hc w \<lparr>Method = m, URL = \<lparr>Scheme = ''https'', Host = ''db.satnogs.org'',
       Path = ''/api/telemetry/'', RawQuery = ''format=json&sat_id=0'', Fragment = []\<rparr>,
     Header = h, ReqHost = r\<rparr> = Inr \<lparr>StatusCode = 200, Body = body_truncated\<rparr>"
  "stub_RoundTrip hc w \<lparr>Method = m, URL = \<lparr>Scheme = ''https'', Host = ''db.satnogs.org'',
       Path = ''/api/telemetry/'', RawQuery = ''format=json&sat_id=1'', Fragment = []\<rparr>,
     Header = h, ReqHost = r\<rparr> = Inr \<lparr>StatusCode = 200, Body = body_empty_object\<rparr>"
  "stub_RoundTrip hc w \<lparr>Method = m, URL = \<lparr>Scheme = ''https'', Host = ''db.satnogs.org'',
       Path = ''/api/telemetry/'', RawQuery = ''format=json&sat_id=2'', Fragment = []\<rparr>,
     Header = h, ReqHost = r\<rparr> = Inr \<lparr>StatusCode = 200, Body = body_wrong_shape\<rparr>"
  by (simp_all add: stub_RoundTrip_def stub_String_def)

lemma stub_Get_URL_telemetry:
  "Get_URL stub_env (NewClient k) ''/telemetry/''
     [\<lparr>Key = ''sat_id'', Value = ''43770''\<rparr>, \<lparr>Key = ''format'', Value = ''json''\<rparr>] =
   Inr \<lparr>Scheme = ''https'', Host = ''db.satnogs.org'', Path = ''/api/telemetry/'',
        RawQuery = ''format=json&sat_id=43770'', Fragment = []\<rparr>"
  "Get_URL stub_env (NewClient k) ''/telemetry/''
     [\<lparr>Key = ''sat_id'', Value = ''0''\<rparr>, \<lparr>Key = ''format'', Value = ''json''\<rparr>] =
   Inr \<lparr>Scheme = ''https'', Host = ''db.satnogs.org'', Path = ''/api/telemetry/'',
        RawQuery = ''format=json&sat_id=0'', Fragment = []\<rparr>"
  "Get_URL stub_env (NewClient k) ''/telemetry/''
     [\<lparr>Key = ''sat_id'', Value = ''1''\<rparr>, \<lparr>Key = ''format'', Value = ''json''\<rparr>] =
   Inr \<lparr>Scheme = ''https'', Host = ''db.satnogs.org'', Path = ''/api/telemetry/'',
        RawQuery = ''format=json&sat_id=1'', Fragment = []\<rparr>"
  "Get_URL stub_env (NewClient k) ''/telemetry/''
     [\<lparr>Key = ''sat_id'', Value = ''2''\<rparr>, \<lparr>Key = ''format'', Value = ''json''\<rparr>] =
   Inr \<lparr>Scheme = ''https'', Host = ''db.satnogs.org'', Path = ''/api/telemetry/'',
        RawQuery = ''format=json&sat_id=2'', Fragment = []\<rparr>"
  by (simp_all only: stub_Get_URL stub_Encode_telemetry)

lemma stub_Get_first:
  "Get stub_env (NewClient k) ''/telemetry/''
     [\<lparr>Key = ''sat_id'', Value = ''43770''\<rparr>, \<lparr>Key = ''format'', Value = ''json''\<rparr>] [] =
   ((Some \<lparr>StatusCode = 200, Body = body_page1\<rparr>, None),
    [\<lparr>Method = ''GET'',
       URL = \<lparr>Scheme = ''https'', Host = ''db.satnogs.org'', Path = ''/api/telemetry/'',
              RawQuery = ''format=json&sat_id=43770'', Fragment = []\<rparr>,
       Header = (if k = [] then Map.empty else [''Authorization'' \<mapsto> [''Token '' @ k]]),
       ReqHost = ''db.satnogs.org''\<rparr>])"
  by (simp add: Get_wire stub_Get_URL_telemetry stub_fields stub_String_query
      stub_Parse_first removeEmptyPort_stub client_Do_def NewClient_fields stub_RoundTrip_served)




lemma page_links:
  "Next page1 = ''https://db.satnogs.org/api/telemetry/?sat_id=43770&page=2''"
  "Prev page1 = []"
  "Next page2 = []"
  "Prev page2 = ''https://db.satnogs.org/api/telemetry/?sat_id=43770&page=1''"
  "Next page_fragment = ''https://db.satnogs.org/api/telemetry/?sat_id=43770&page=2#''"
  by (simp_all add: page1_def page2_def page_fragment_def)

lemma stub_Encode_reserved:
  "Values_Encode (fold (\<lambda>param q. Values_Add q (Key param) (Value param))
     [\<lparr>Key = ''q'', Value = ''a b&c#d''\<rparr>] []) = ''q=a+b%26c%23d''"
  by code_simp

lemma stub_Parse_reserved: "ParseQuery ''q=a+b%26c%23d'' = ([(''q'', [''a b&c#d''])], None)"
  by code_simp

lemma stub_Get_URL_reserved:
  "Get_URL stub_env (NewClient []) ''/telemetry/'' [\<lparr>Key = ''q'', Value = ''a b&c#d''\<rparr>] =
     Inr \<lparr>Scheme = ''https'', Host = ''db.satnogs.org'', Path = ''/api/telemetry/'',
          RawQuery = ''q=a+b%26c%23d'', Fragment = []\<rparr>"
  by (simp only: stub_Get_URL stub_Encode_reserved)

lemma stub_Parse_sent_reserved:
  "stub_Parse ''https://db.satnogs.org/api/telemetry/?q=a+b%26c%23d'' =
   Inr \<lparr>Scheme = ''https'', Host = ''db.satnogs.org'', Path = ''/api/telemetry/'',
        RawQuery = ''q=a+b%26c%23d'', Fragment = []\<rparr>"
  by code_simp

lemma stub_Get_sent_reserved:
  "snd (Get stub_env (NewClient []) ''/telemetry/'' [\<lparr>Key = ''q'', Value = ''a b&c#d''\<rparr>] []) =
     [\<lparr>Method = ''GET'',
        URL = \<lparr>Scheme = ''https'', Host = ''db.satnogs.org'', Path = ''/api/telemetry/'',
               RawQuery = ''q=a+b%26c%23d'', Fragment = []\<rparr>,
        Header = Map.empty, ReqHost = ''db.satnogs.org''\<rparr>]"
  by (simp add: Get_wire stub_Get_URL_reserved stub_fields stub_String_query
      stub_Parse_sent_reserved removeEmptyPort_stub client_Do_def NewClient_fields)

lemma stub_Encode_repeated:
  "Values_Encode (fold (\<lambda>param q. Values_Add q (Key param) (Value param))
     [\<lparr>Key = ''a'', Value = ''1''\<rparr>, \<lparr>Key = ''b'', Value = ''2''\<rparr>,
      \<lparr>Key = ''a'', Value = ''3''\<rparr>, \<lparr>Key = ''a'', Value = ''1''\<rparr>] []) = ''a=1&a=3&a=1&b=2''"
  by code_simp

lemma stub_Get_URL_repeated:
  "Get_URL stub_env (NewClient []) ''/telemetry/''
     [\<lparr>Key = ''a'', Value = ''1''\<rparr>, \<lparr>Key = ''b'', Value = ''2''\<rparr>,
      \<lparr>Key = ''a'', Value = ''3''\<rparr>, \<lparr>Key = ''a'', Value = ''1''\<rparr>] =
   Inr \<lparr>Scheme = ''https'', Host = ''db.satnogs.org'', Path = ''/api/telemetry/'',
        RawQuery = ''a=1&a=3&a=1&b=2'', Fragment = []\<rparr>"
  by (simp only: stub_Get_URL stub_Encode_repeated)

lemma stub_Parse_sent_repeated:
  "stub_Parse ''https://db.satnogs.org/api/telemetry/?a=1&a=3&a=1&b=2'' =
   Inr \<lparr>Scheme = ''https'', Host = ''db.satnogs.org'', Path = ''/api/telemetry/'',
        RawQuery = ''a=1&a=3&a=1&b=2'', Fragment = []\<rparr>"
  by code_simp

lemma stub_Get_sent_repeated:
  "snd (Get stub_env (NewClient []) ''/telemetry/''
     [\<lparr>Key = ''a'', Value = ''1''\<rparr>, \<lparr>Key = ''b'', Value = ''2''\<rparr>,
      \<lparr>Key = ''a'', Value = ''3''\<rparr>, \<lparr>Key = ''a'', Value = ''1''\<rparr>] []) =
     [\<lparr>Method = ''GET'',
        URL = \<lparr>Scheme = ''https'', Host = ''db.satnogs.org'', Path = ''/api/telemetry/'',
               RawQuery = ''a=1&a=3&a=1&b=2'', Fragment = []\<rparr>,
        Header = Map.empty, ReqHost = ''db.satnogs.org''\<rparr>]"
  by (simp add: Get_wire stub_Get_URL_repeated stub_fields stub_String_query
      stub_Parse_sent_repeated removeEmptyPort_stub client_Do_def NewClient_fields)

lemma stub_Parse_base:
  "url_Parse stub_env (baseURL (NewClient []) @ ''/telemetry/'') =
   Inr \<lparr>Scheme = ''https'', Host = ''db.satnogs.org'', Path = ''/api/telemetry/'',
        RawQuery = [], Fragment = []\<rparr>"
  by (simp add: stub_env_def stub_Parse_def NewClient_def const_baseURL_def Cut_def less_char_def)

subsection \<open>The decoder at work\<close>

lemma decode_body_page1:
  "json_Decode_TelemetryResponse stub_parse_time body_page1 = (page1, None)"
  by code_simp

lemma decode_body_page2:
  "json_Decode_TelemetryResponse stub_parse_time body_page2 = (page2, None)"
  by code_simp






subsection \<open>Which values the decoder refuses\<close>













subsection \<open>What the first-page functions return\<close>


lemma first_page_decoded:
  assumes "Get env c ''/telemetry/''
        [\<lparr>Key = ''sat_id'', Value = satelliteID\<rparr>, \<lparr>Key = ''format'', Value = ''json''\<rparr>] w =
        ((Some resp, None), w')"
    and "json_Decode env (Body resp) = (page, None)"
  shows "GetTelemetryResponse env c satelliteID w = (Returns (Some page, None), w')"
    and "GetTelemetry env c satelliteID w = (Returns (Results page, None), w')"
    and "GetTelemetry_direct env c satelliteID w = (Returns (Results page, None), w')"
  using assms
  by (simp_all add: GetTelemetryResponse_def GetTelemetry_def GetTelemetry_direct_def)



lemma stub_GetTelemetryResponse_first:
  "GetTelemetryResponse stub_env (NewClient []) ''43770'' [] =
     (Returns (Some page1, None),
      [\<lparr>Method = ''GET'',
         URL = \<lparr>Scheme = ''https'', Host = ''db.satnogs.org'', Path = ''/api/telemetry/'',
                RawQuery = ''format=json&sat_id=43770'', Fragment = []\<rparr>,
         Header = Map.empty, ReqHost = ''db.satnogs.org''\<rparr>])"
proof -
  have d: "json_Decode stub_env (Body \<lparr>StatusCode = 200, Body = body_page1\<rparr>) = (page1, None)"
    by (simp add: stub_fields decode_body_page1)
  from first_page_decoded(1)[OF stub_Get_first[of "[]"] d] show ?thesis
    by simp
qed

subsection \<open>The claims\<close>

text \<open>C1. When the link of a page is empty, the walker for that link returns a nil page and
  a nil error and sends nothing. It returns that pair in no other case: for a page whose
  link is not empty (whatever its results are) the walker returns a page or an error.\<close>

theorem walker_terminal:
  "GetTelemetryResponseNextPage env c (Some (t\<lparr>Next := []\<rparr>)) w = (Returns (None, None), w)
   \<and> GetTelemetryResponsePrevPage env c (Some (t\<lparr>Prev := []\<rparr>)) w = (Returns (None, None), w)
   \<and> (fst (GetTelemetryResponseNextPage env c (Some t) w) = Returns (None, None)) = (Next t = [])
   \<and> (fst (GetTelemetryResponsePrevPage env c (Some t) w) = Returns (None, None)) = (Prev t = [])"
proof -
  have n0: "GetTelemetryResponseNextPage env c (Some (t\<lparr>Next := []\<rparr>)) w = (Returns (None, None), w)"
    by (simp add: GetTelemetryResponseNextPage_def)
  have p0: "GetTelemetryResponsePrevPage env c (Some (t\<lparr>Prev := []\<rparr>)) w = (Returns (None, None), w)"
    by (simp add: GetTelemetryResponsePrevPage_def)
  have n1: "(fst (GetTelemetryResponseNextPage env c (Some t) w) = Returns (None, None)) = (Next t = [])"
    by (auto simp: GetTelemetryResponseNextPage_def client_Do_def Let_def
        split: sum.splits prod.splits option.splits)
  have p1: "(fst (GetTelemetryResponsePrevPage env c (Some t) w) = Returns (None, None)) = (Prev t = [])"
    by (auto simp: GetTelemetryResponsePrevPage_def client_Do_def Let_def
        split: sum.splits prod.splits option.splits)
  from n0 p0 n1 p1 show ?thesis by blast
qed

text \<open>C2. Each of \<^verbatim>\<open>Get\<close>, \<^verbatim>\<open>GetTelemetryResponse\<close> and the two walkers sends at most one
  request. A request it sends has no \<^verbatim>\<open>Authorization\<close> header when the API key is empty,
  and has the single value \<^verbatim>\<open>Token \<close> followed by the key otherwise.\<close>

theorem authorization_header:
  "(snd (Get env c endpoint params w) = w \<or>
      (\<exists>r. snd (Get env c endpoint params w) = w @ [r] \<and>
           Header r ''Authorization'' =
             (if apiKey c = [] then None else Some [''Token '' @ apiKey c])))
   \<and> (snd (GetTelemetryResponse env c satelliteID w) = w \<or>
      (\<exists>r. snd (GetTelemetryResponse env c satelliteID w) = w @ [r] \<and>
           Header r ''Authorization'' =
             (if apiKey c = [] then None else Some [''Token '' @ apiKey c])))
   \<and> (snd (GetTelemetryResponseNextPage env c (Some t) w) = w \<or>
      (\<exists>r. snd (GetTelemetryResponseNextPage env c (Some t) w) = w @ [r] \<and>
           Header r ''Authorization'' =
             (if apiKey c = [] then None else Some [''Token '' @ apiKey c])))
   \<and> (snd (GetTelemetryResponsePrevPage env c (Some t) w) = w \<or>
      (\<exists>r. snd (GetTelemetryResponsePrevPage env c (Some t) w) = w @ [r] \<and>
           Header r ''Authorization'' =
             (if apiKey c = [] then None else Some [''Token '' @ apiKey c])))"
proof -
  have get: "snd (Get env c ep ps w) = w \<or>
      (\<exists>r. snd (Get env c ep ps w) = w @ [r] \<and>
           Header r ''Authorization'' =
             (if apiKey c = [] then None else Some [''Token '' @ apiKey c]))" for ep ps
    using Get_sent[of env c ep ps w] by auto
  have first: "snd (GetTelemetryResponse env c satelliteID w) = w \<or>
      (\<exists>r. snd (GetTelemetryResponse env c satelliteID w) = w @ [r] \<and>
           Header r ''Authorization'' =
             (if apiKey c = [] then None else Some [''Token '' @ apiKey c]))"
    unfolding GetTelemetryResponse_wire by (rule get)
  have nxt: "snd (GetTelemetryResponseNextPage env c (Some t) w) = w \<or>
      (\<exists>r. snd (GetTelemetryResponseNextPage env c (Some t) w) = w @ [r] \<and>
           Header r ''Authorization'' =
             (if apiKey c = [] then None else Some [''Token '' @ apiKey c]))"
    by (simp add: NextPage_wire split: sum.splits)
  have prv: "snd (GetTelemetryResponsePrevPage env c (Some t) w) = w \<or>
      (\<exists>r. snd (GetTelemetryResponsePrevPage env c (Some t) w) = w @ [r] \<and>
           Header r ''Authorization'' =
             (if apiKey c = [] then None else Some [''Token '' @ apiKey c]))"
    by (simp add: PrevPage_wire split: sum.splits)
  from get first nxt prv show ?thesis by blast
qed

theorem authorization_header_witness:
  "map (\<lambda>r. Header r ''Authorization'')
     (snd (Get stub_env (NewClient ''secret'') ''/telemetry/''
        [\<lparr>Key = ''sat_id'', Value = ''43770''\<rparr>, \<lparr>Key = ''format'', Value = ''json''\<rparr>] [])) =
     [Some [''Token secret'']]
   \<and> map (\<lambda>r. Header r ''Authorization'')
     (snd (Get stub_env (NewClient []) ''/telemetry/''
        [\<lparr>Key = ''sat_id'', Value = ''43770''\<rparr>, \<lparr>Key = ''format'', Value = ''json''\<rparr>] [])) =
     [None]"
  using authorization_header[of stub_env "NewClient ''secret''" "''/telemetry/''"
      "[\<lparr>Key = ''sat_id'', Value = ''43770''\<rparr>, \<lparr>Key = ''format'', Value = ''json''\<rparr>]" "[]"]
    authorization_header[of stub_env "NewClient []" "''/telemetry/''"
      "[\<lparr>Key = ''sat_id'', Value = ''43770''\<rparr>, \<lparr>Key = ''format'', Value = ''json''\<rparr>]" "[]"]
  by (simp add: stub_Get_first)

text \<open>C3. The walker hands the link to \<^verbatim>\<open>http.NewRequest\<close>, which parses it with
  \<^verbatim>\<open>url.Parse\<close>; the request carries the parsed URL and not the string. The next link of
  \<open>page_fragment\<close> is an absolute URL that ends in \<^verbatim>\<open>#\<close>. The walker sends a \<^verbatim>\<open>GET\<close> for a
  URL with no fragment, which \<^verbatim>\<open>URL.String\<close> writes without the \<^verbatim>\<open>#\<close>: the target of the
  request is not the link string as the server supplied it.\<close>

theorem walker_follows_link_counterexample:
  "Next page_fragment = ''https://db.satnogs.org/api/telemetry/?sat_id=43770&page=2#''
   \<and> GetTelemetryResponseNextPage stub_env (NewClient []) (Some page_fragment) [] =
     (Returns (Some page2, None),
      [\<lparr>Method = ''GET'',
         URL = \<lparr>Scheme = ''https'', Host = ''db.satnogs.org'', Path = ''/api/telemetry/'',
                RawQuery = ''sat_id=43770&page=2'', Fragment = []\<rparr>,
         Header = Map.empty, ReqHost = ''db.satnogs.org''\<rparr>])
   \<and> url_String stub_env
        \<lparr>Scheme = ''https'', Host = ''db.satnogs.org'', Path = ''/api/telemetry/'',
         RawQuery = ''sat_id=43770&page=2'', Fragment = []\<rparr> =
      ''https://db.satnogs.org/api/telemetry/?sat_id=43770&page=2''"
  by (simp add: GetTelemetryResponseNextPage_def http_NewRequest_def page_links stub_fields
      stub_Parse_fragment removeEmptyPort_stub client_Do_def NewClient_fields
      stub_RoundTrip_served decode_body_page2 stub_String_def)

text \<open>C3, as amended. For a page whose link is not empty and is a URL for \<^verbatim>\<open>url.Parse\<close>, the
  walker sends a \<^verbatim>\<open>GET\<close> whose URL is the URL that \<^verbatim>\<open>url.Parse\<close> reads from the link, with
  an empty port taken off the host as \<^verbatim>\<open>http.NewRequest\<close> does: every component, the
  query among them, is as the link has it. The client's base URL has no part in it: a
  client with another base URL sends the same.\<close>

theorem walker_follows_link:
  "(Next t \<noteq> [] \<and> url_Parse env (Next t) = Inr u \<longrightarrow>
      snd (GetTelemetryResponseNextPage env c (Some t) w) =
        w @ [\<lparr>Method = ''GET'', URL = u\<lparr>Host := removeEmptyPort (Host u)\<rparr>,
               Header = (if apiKey c = [] then Map.empty
                         else [''Authorization'' \<mapsto> [''Token '' @ apiKey c]]),
               ReqHost = removeEmptyPort (Host u)\<rparr>])
   \<and> (Prev t \<noteq> [] \<and> url_Parse env (Prev t) = Inr u \<longrightarrow>
      snd (GetTelemetryResponsePrevPage env c (Some t) w) =
        w @ [\<lparr>Method = ''GET'', URL = u\<lparr>Host := removeEmptyPort (Host u)\<rparr>,
               Header = (if apiKey c = [] then Map.empty
                         else [''Authorization'' \<mapsto> [''Token '' @ apiKey c]]),
               ReqHost = removeEmptyPort (Host u)\<rparr>])
   \<and> GetTelemetryResponseNextPage env (c\<lparr>baseURL := b\<rparr>) (Some t) w =
       GetTelemetryResponseNextPage env c (Some t) w
   \<and> GetTelemetryResponsePrevPage env (c\<lparr>baseURL := b\<rparr>) (Some t) w =
       GetTelemetryResponsePrevPage env c (Some t) w"
proof (intro conjI impI)
  assume "Next t \<noteq> [] \<and> url_Parse env (Next t) = Inr u"
  then show "snd (GetTelemetryResponseNextPage env c (Some t) w) =
        w @ [\<lparr>Method = ''GET'', URL = u\<lparr>Host := removeEmptyPort (Host u)\<rparr>,
               Header = (if apiKey c = [] then Map.empty
                         else [''Authorization'' \<mapsto> [''Token '' @ apiKey c]]),
               ReqHost = removeEmptyPort (Host u)\<rparr>]"
    by (simp add: NextPage_wire)
next
  assume "Prev t \<noteq> [] \<and> url_Parse env (Prev t) = Inr u"
  then show "snd (GetTelemetryResponsePrevPage env c (Some t) w) =
        w @ [\<lparr>Method = ''GET'', URL = u\<lparr>Host := removeEmptyPort (Host u)\<rparr>,
               Header = (if apiKey c = [] then Map.empty
                         else [''Authorization'' \<mapsto> [''Token '' @ apiKey c]]),
               ReqHost = removeEmptyPort (Host u)\<rparr>]"
    by (simp add: PrevPage_wire)
next
  show "GetTelemetryResponseNextPage env (c\<lparr>baseURL := b\<rparr>) (Some t) w =
       GetTelemetryResponseNextPage env c (Some t) w"
    by (simp add: GetTelemetryResponseNextPage_def Let_def split: sum.splits)
next
  show "GetTelemetryResponsePrevPage env (c\<lparr>baseURL := b\<rparr>) (Some t) w =
       GetTelemetryResponsePrevPage env c (Some t) w"
    by (simp add: GetTelemetryResponsePrevPage_def Let_def split: sum.splits)
qed

theorem walker_follows_link_witness:
  "snd (GetTelemetryResponseNextPage stub_env (NewClient ''secret'') (Some page1) []) =
     [\<lparr>Method = ''GET'',
        URL = \<lparr>Scheme = ''https'', Host = ''db.satnogs.org'', Path = ''/api/telemetry/'',
               RawQuery = ''sat_id=43770&page=2'', Fragment = []\<rparr>,
        Header = [''Authorization'' \<mapsto> [''Token secret'']], ReqHost = ''db.satnogs.org''\<rparr>]
   \<and> snd (GetTelemetryResponsePrevPage stub_env (NewClient ''secret'') (Some page2) []) =
     [\<lparr>Method = ''GET'',
        URL = \<lparr>Scheme = ''https'', Host = ''db.satnogs.org'', Path = ''/api/telemetry/'',
               RawQuery = ''sat_id=43770&page=1'', Fragment = []\<rparr>,
        Header = [''Authorization'' \<mapsto> [''Token secret'']], ReqHost = ''db.satnogs.org''\<rparr>]"
  using walker_follows_link[of page1 stub_env
      "\<lparr>Scheme = ''https'', Host = ''db.satnogs.org'', Path = ''/api/telemetry/'',
        RawQuery = ''sat_id=43770&page=2'', Fragment = []\<rparr>" "NewClient ''secret''" "[]"]
    walker_follows_link[of page2 stub_env
      "\<lparr>Scheme = ''https'', Host = ''db.satnogs.org'', Path = ''/api/telemetry/'',
        RawQuery = ''sat_id=43770&page=1'', Fragment = []\<rparr>" "NewClient ''secret''" "[]"]
  by (simp add: page_links stub_fields stub_Parse_page1 stub_Parse_page2 removeEmptyPort_stub
      NewClient_fields)




text \<open>C5. The request of \<^verbatim>\<open>GetTelemetryResponse\<close>, when it sends one, is a \<^verbatim>\<open>GET\<close>. Its URL is
  read back by \<^verbatim>\<open>http.NewRequest\<close> from the string of the URL \<open>u\<close> that was parsed from the
  base URL followed by \<^verbatim>\<open>/telemetry/\<close> and given a query string that decodes without error
  to a map in which the last value of \<^verbatim>\<open>sat_id\<close> is the satellite identifier and the last
  value of \<^verbatim>\<open>format\<close> is \<^verbatim>\<open>json\<close>. Both variants of \<^verbatim>\<open>GetTelemetry\<close> send the same
  request.\<close>

theorem telemetry_query:
  "(snd (GetTelemetryResponse env c satelliteID w) = w \<or>
    (\<exists>u0 u u'. url_Parse env (baseURL c @ ''/telemetry/'') = Inr u0 \<and>
        u = u0\<lparr>RawQuery := RawQuery u\<rparr> \<and>
        url_Parse env (url_String env u) = Inr u' \<and>
        snd (GetTelemetryResponse env c satelliteID w) =
          w @ [\<lparr>Method = ''GET'', URL = u'\<lparr>Host := removeEmptyPort (Host u')\<rparr>,
                 Header = (if apiKey c = [] then Map.empty
                           else [''Authorization'' \<mapsto> [''Token '' @ apiKey c]]),
                 ReqHost = removeEmptyPort (Host u')\<rparr>] \<and>
        snd (ParseQuery (RawQuery u)) = None \<and>
        Values_index (fst (ParseQuery (RawQuery u))) ''sat_id'' =
          Values_index (URL_Query u0) ''sat_id'' @ [satelliteID] \<and>
        Values_index (fst (ParseQuery (RawQuery u))) ''format'' =
          Values_index (URL_Query u0) ''format'' @ [''json'']))
   \<and> snd (GetTelemetry env c satelliteID w) = snd (GetTelemetryResponse env c satelliteID w)
   \<and> snd (GetTelemetry_direct env c satelliteID w) = snd (GetTelemetryResponse env c satelliteID w)"
proof -
  let ?ps = "[\<lparr>Key = ''sat_id'', Value = satelliteID\<rparr>, \<lparr>Key = ''format'', Value = ''json''\<rparr>]"
  have sat: "map Value (filter (\<lambda>param. Key param = ''sat_id'') ?ps) = [satelliteID]"
    by simp
  have fmt: "map Value (filter (\<lambda>param. Key param = ''format'') ?ps) = [''json'']"
    by simp
  have "snd (Get env c ''/telemetry/'' ?ps w) = w \<or>
    (\<exists>u0 u u'. url_Parse env (baseURL c @ ''/telemetry/'') = Inr u0 \<and>
        u = u0\<lparr>RawQuery := RawQuery u\<rparr> \<and>
        url_Parse env (url_String env u) = Inr u' \<and>
        snd (Get env c ''/telemetry/'' ?ps w) =
          w @ [\<lparr>Method = ''GET'', URL = u'\<lparr>Host := removeEmptyPort (Host u')\<rparr>,
                 Header = (if apiKey c = [] then Map.empty
                           else [''Authorization'' \<mapsto> [''Token '' @ apiKey c]]),
                 ReqHost = removeEmptyPort (Host u')\<rparr>] \<and>
        snd (ParseQuery (RawQuery u)) = None \<and>
        Values_index (fst (ParseQuery (RawQuery u))) ''sat_id'' =
          Values_index (URL_Query u0) ''sat_id'' @ [satelliteID] \<and>
        Values_index (fst (ParseQuery (RawQuery u))) ''format'' =
          Values_index (URL_Query u0) ''format'' @ [''json''])"
    using Get_sent_query[of env c "''/telemetry/''" ?ps w] sat fmt
    by metis
  then show ?thesis
    by (simp add: GetTelemetryResponse_wire GetTelemetry_wire GetTelemetry_direct_wire)
qed

theorem telemetry_query_witness:
  "snd (GetTelemetryResponse stub_env (NewClient []) ''43770'' []) =
     [\<lparr>Method = ''GET'',
        URL = \<lparr>Scheme = ''https'', Host = ''db.satnogs.org'', Path = ''/api/telemetry/'',
               RawQuery = ''format=json&sat_id=43770'', Fragment = []\<rparr>,
        Header = Map.empty, ReqHost = ''db.satnogs.org''\<rparr>]
   \<and> snd (GetTelemetry stub_env (NewClient []) ''43770'' []) =
     [\<lparr>Method = ''GET'',
        URL = \<lparr>Scheme = ''https'', Host = ''db.satnogs.org'', Path = ''/api/telemetry/'',
               RawQuery = ''format=json&sat_id=43770'', Fragment = []\<rparr>,
        Header = Map.empty, ReqHost = ''db.satnogs.org''\<rparr>]
   \<and> snd (GetTelemetry_direct stub_env (NewClient []) ''43770'' []) =
     [\<lparr>Method = ''GET'',
        URL = \<lparr>Scheme = ''https'', Host = ''db.satnogs.org'', Path = ''/api/telemetry/'',
               RawQuery = ''format=json&sat_id=43770'', Fragment = []\<rparr>,
        Header = Map.empty, ReqHost = ''db.satnogs.org''\<rparr>]
   \<and> ParseQuery ''format=json&sat_id=43770'' =
     ([(''format'', [''json'']), (''sat_id'', [''43770''])], None)"
proof -
  have sent: "snd (GetTelemetryResponse stub_env (NewClient []) ''43770'' []) =
     [\<lparr>Method = ''GET'',
        URL = \<lparr>Scheme = ''https'', Host = ''db.satnogs.org'', Path = ''/api/telemetry/'',
               RawQuery = ''format=json&sat_id=43770'', Fragment = []\<rparr>,
        Header = Map.empty, ReqHost = ''db.satnogs.org''\<rparr>]"
    by (simp add: GetTelemetryResponse_wire stub_Get_first)
  have q: "ParseQuery ''format=json&sat_id=43770'' =
     ([(''format'', [''json'']), (''sat_id'', [''43770''])], None)"
    by code_simp
  from telemetry_query[of stub_env "NewClient []" "''43770''" "[]"] sent q show ?thesis
    by simp
qed

text \<open>C6. Unescaping an escaped key or value gives the key or value back, whatever bytes
  it holds. The query string of the URL \<open>u\<close> that \<^verbatim>\<open>Get\<close> builds decodes without error, and
  each value passed to \<^verbatim>\<open>Get\<close> is among the decoded values of its key. \<^verbatim>\<open>Get\<close> requests the
  URL that \<^verbatim>\<open>http.NewRequest\<close> reads back from the string of \<open>u\<close>.\<close>

theorem query_value_round_trip:
  assumes "param \<in> set params"
  shows "QueryUnescape (QueryEscape (Key param)) = Inr (Key param)
    \<and> QueryUnescape (QueryEscape (Value param)) = Inr (Value param)
    \<and> (snd (Get env c endpoint params w) = w \<or>
       (\<exists>u u'. Get_URL env c endpoint params = Inr u \<and>
          url_Parse env (url_String env u) = Inr u' \<and>
          snd (Get env c endpoint params w) =
            w @ [\<lparr>Method = ''GET'', URL = u'\<lparr>Host := removeEmptyPort (Host u')\<rparr>,
                   Header = (if apiKey c = [] then Map.empty
                             else [''Authorization'' \<mapsto> [''Token '' @ apiKey c]]),
                   ReqHost = removeEmptyPort (Host u')\<rparr>] \<and>
          snd (ParseQuery (RawQuery u)) = None \<and>
          Value param \<in> set (Values_index (fst (ParseQuery (RawQuery u))) (Key param))))"
proof -
  have "Value param \<in> set (map Value (filter (\<lambda>p. Key p = Key param) params))"
    using assms by auto
  then have "Value param \<in> set (Values_index q0 (Key param) @
       map Value (filter (\<lambda>p. Key p = Key param) params))" for q0
    by simp
  with Get_sent_query[of env c endpoint params w]
  have "snd (Get env c endpoint params w) = w \<or>
       (\<exists>u u'. Get_URL env c endpoint params = Inr u \<and>
          url_Parse env (url_String env u) = Inr u' \<and>
          snd (Get env c endpoint params w) =
            w @ [\<lparr>Method = ''GET'', URL = u'\<lparr>Host := removeEmptyPort (Host u')\<rparr>,
                   Header = (if apiKey c = [] then Map.empty
                             else [''Authorization'' \<mapsto> [''Token '' @ apiKey c]]),
                   ReqHost = removeEmptyPort (Host u')\<rparr>] \<and>
          snd (ParseQuery (RawQuery u)) = None \<and>
          Value param \<in> set (Values_index (fst (ParseQuery (RawQuery u))) (Key param)))"
    by metis
  then show ?thesis by (simp add: QueryUnescape_QueryEscape)
qed

theorem query_value_round_trip_witness:
  "QueryUnescape (QueryEscape ''a b&c#d'') = Inr ''a b&c#d''
   \<and> Get_URL stub_env (NewClient []) ''/telemetry/'' [\<lparr>Key = ''q'', Value = ''a b&c#d''\<rparr>] =
     Inr \<lparr>Scheme = ''https'', Host = ''db.satnogs.org'', Path = ''/api/telemetry/'',
          RawQuery = ''q=a+b%26c%23d'', Fragment = []\<rparr>
   \<and> snd (Get stub_env (NewClient []) ''/telemetry/'' [\<lparr>Key = ''q'', Value = ''a b&c#d''\<rparr>] []) =
     [\<lparr>Method = ''GET'',
        URL = \<lparr>Scheme = ''https'', Host = ''db.satnogs.org'', Path = ''/api/telemetry/'',
               RawQuery = ''q=a+b%26c%23d'', Fragment = []\<rparr>,
        Header = Map.empty, ReqHost = ''db.satnogs.org''\<rparr>]
   \<and> ParseQuery ''q=a+b%26c%23d'' = ([(''q'', [''a b&c#d''])], None)"
proof -
  have member: "\<lparr>Key = ''q'', Value = ''a b&c#d''\<rparr> \<in> set [\<lparr>Key = ''q'', Value = ''a b&c#d''\<rparr>]"
    by simp
  from query_value_round_trip[OF member, of stub_env "NewClient []" "''/telemetry/''" "[]"]
  have "QueryUnescape (QueryEscape ''a b&c#d'') = Inr ''a b&c#d''"
    by simp
  with stub_Get_URL_reserved stub_Get_sent_reserved stub_Parse_reserved show ?thesis by simp
qed

text \<open>C7. In the URL \<open>u\<close> that \<^verbatim>\<open>Get\<close> builds, the query string decodes, for every key, to the
  values the parsed URL already had for the key followed by the values of all the
  parameters with that key, in the order they were passed: a key passed several times
  keeps every one of its values. \<^verbatim>\<open>Get\<close> requests the URL that \<^verbatim>\<open>http.NewRequest\<close> reads back
  from the string of \<open>u\<close>.\<close>

theorem all_pairs_in_query:
  assumes "Get_URL env c endpoint params = Inr u"
  shows "(\<exists>u0. url_Parse env (baseURL c @ endpoint) = Inr u0 \<and>
           u = u0\<lparr>RawQuery := RawQuery u\<rparr> \<and>
           snd (ParseQuery (RawQuery u)) = None \<and>
           (\<forall>k. Values_index (fst (ParseQuery (RawQuery u))) k =
                Values_index (URL_Query u0) k @
                map Value (filter (\<lambda>param. Key param = k) params)))
    \<and> (snd (Get env c endpoint params w) = w \<or>
        (\<exists>u'. url_Parse env (url_String env u) = Inr u' \<and>
          snd (Get env c endpoint params w) =
            w @ [\<lparr>Method = ''GET'', URL = u'\<lparr>Host := removeEmptyPort (Host u')\<rparr>,
                   Header = (if apiKey c = [] then Map.empty
                             else [''Authorization'' \<mapsto> [''Token '' @ apiKey c]]),
                   ReqHost = removeEmptyPort (Host u')\<rparr>]))"
  using Get_URL_query[OF assms] Get_sent[of env c endpoint params w] assms by auto

theorem all_pairs_in_query_witness:
  "Get_URL stub_env (NewClient []) ''/telemetry/''
     [\<lparr>Key = ''a'', Value = ''1''\<rparr>, \<lparr>Key = ''b'', Value = ''2''\<rparr>,
      \<lparr>Key = ''a'', Value = ''3''\<rparr>, \<lparr>Key = ''a'', Value = ''1''\<rparr>] =
     Inr \<lparr>Scheme = ''https'', Host = ''db.satnogs.org'', Path = ''/api/telemetry/'',
          RawQuery = ''a=1&a=3&a=1&b=2'', Fragment = []\<rparr>
   \<and> snd (Get stub_env (NewClient []) ''/telemetry/''
     [\<lparr>Key = ''a'', Value = ''1''\<rparr>, \<lparr>Key = ''b'', Value = ''2''\<rparr>,
      \<lparr>Key = ''a'', Value = ''3''\<rparr>, \<lparr>Key = ''a'', Value = ''1''\<rparr>] []) =
     [\<lparr>Method = ''GET'',
        URL = \<lparr>Scheme = ''https'', Host = ''db.satnogs.org'', Path = ''/api/telemetry/'',
               RawQuery = ''a=1&a=3&a=1&b=2'', Fragment = []\<rparr>,
        Header = Map.empty, ReqHost = ''db.satnogs.org''\<rparr>]
   \<and> Values_index (fst (ParseQuery ''a=1&a=3&a=1&b=2'')) ''a'' = [''1'', ''3'', ''1'']
   \<and> Values_index (fst (ParseQuery ''a=1&a=3&a=1&b=2'')) ''b'' = [''2'']
   \<and> snd (ParseQuery ''a=1&a=3&a=1&b=2'') = None"
  using all_pairs_in_query[OF stub_Get_URL_repeated, of "[]"] stub_Get_URL_repeated
    stub_Get_sent_repeated
  by (simp add: stub_Parse_base URL_Query_def ParseQuery_def[of "[]"] parseQuery_Nil
      Values_index_Nil)

text \<open>C8. The two implementations of \<^verbatim>\<open>GetTelemetry\<close> agree on every input, and
  \<^verbatim>\<open>GetTelemetry\<close> returns the error of \<^verbatim>\<open>GetTelemetryResponse\<close> and the results of its page
  (a nil slice when there is no page).\<close>

theorem GetTelemetry_equivalent:
  "GetTelemetry_direct env c satelliteID w = GetTelemetry env c satelliteID w
   \<and> (\<exists>page err w'.
         GetTelemetryResponse env c satelliteID w = (Returns (page, err), w') \<and>
         GetTelemetry env c satelliteID w =
           (Returns (case page of None \<Rightarrow> None | Some p \<Rightarrow> Results p, err), w'))"
proof -
  let ?ps = "[\<lparr>Key = ''sat_id'', Value = satelliteID\<rparr>, \<lparr>Key = ''format'', Value = ''json''\<rparr>]"
  from Get_outcome[of env c "''/telemetry/''" ?ps w]
  obtain w' where "(\<exists>err. Get env c ''/telemetry/'' ?ps w = ((None, Some err), w')) \<or>
        (\<exists>resp. Get env c ''/telemetry/'' ?ps w = ((Some resp, None), w'))" by blast
  then show ?thesis
  proof
    assume "\<exists>err. Get env c ''/telemetry/'' ?ps w = ((None, Some err), w')"
    then obtain err where "Get env c ''/telemetry/'' ?ps w = ((None, Some err), w')" by blast
    then show ?thesis
      by (simp add: GetTelemetryResponse_def GetTelemetry_def GetTelemetry_direct_def)
  next
    assume "\<exists>resp. Get env c ''/telemetry/'' ?ps w = ((Some resp, None), w')"
    then obtain resp where g: "Get env c ''/telemetry/'' ?ps w = ((Some resp, None), w')" by blast
    obtain page derr where d: "json_Decode env (Body resp) = (page, derr)"
      by (cases "json_Decode env (Body resp)")
    from g d show ?thesis
      by (cases derr)
        (simp_all add: GetTelemetryResponse_def GetTelemetry_def GetTelemetry_direct_def)
  qed
qed

theorem GetTelemetry_equivalent_witness:
  "GetTelemetry stub_env (NewClient []) ''43770'' [] =
     (Returns (Some [record1], None),
      [\<lparr>Method = ''GET'',
         URL = \<lparr>Scheme = ''https'', Host = ''db.satnogs.org'', Path = ''/api/telemetry/'',
                RawQuery = ''format=json&sat_id=43770'', Fragment = []\<rparr>,
         Header = Map.empty, ReqHost = ''db.satnogs.org''\<rparr>])
   \<and> GetTelemetry_direct stub_env (NewClient []) ''43770'' [] =
     (Returns (Some [record1], None),
      [\<lparr>Method = ''GET'',
         URL = \<lparr>Scheme = ''https'', Host = ''db.satnogs.org'', Path = ''/api/telemetry/'',
                RawQuery = ''format=json&sat_id=43770'', Fragment = []\<rparr>,
         Header = Map.empty, ReqHost = ''db.satnogs.org''\<rparr>])
   \<and> fst (GetTelemetryResponseNextPage stub_env (NewClient []) (Some page2) []) =
     Returns (None, None)"
  using GetTelemetry_equivalent[of stub_env "NewClient []" "''43770''" "[]"]
    stub_GetTelemetryResponse_first
  by (simp add: page1_def GetTelemetryResponseNextPage_def page_links)

text \<open>C10. \<^verbatim>\<open>GetTelemetryResponse\<close> always returns (it does not panic), and the page it
  returns is non-nil exactly when the error is nil.\<close>

theorem first_page_never_nil_nil:
  "\<exists>page err w'. GetTelemetryResponse env c satelliteID w = (Returns (page, err), w')
      \<and> (page \<noteq> None) = (err = None)"
proof -
  let ?ps = "[\<lparr>Key = ''sat_id'', Value = satelliteID\<rparr>, \<lparr>Key = ''format'', Value = ''json''\<rparr>]"
  from Get_outcome[of env c "''/telemetry/''" ?ps w]
  obtain w' where "(\<exists>err. Get env c ''/telemetry/'' ?ps w = ((None, Some err), w')) \<or>
        (\<exists>resp. Get env c ''/telemetry/'' ?ps w = ((Some resp, None), w'))" by blast
  then show ?thesis
  proof
    assume "\<exists>err. Get env c ''/telemetry/'' ?ps w = ((None, Some err), w')"
    then obtain err where "Get env c ''/telemetry/'' ?ps w = ((None, Some err), w')" by blast
    then have "GetTelemetryResponse env c satelliteID w = (Returns (None, Some err), w')"
      by (simp add: GetTelemetryResponse_def)
    then show ?thesis by simp
  next
    assume "\<exists>resp. Get env c ''/telemetry/'' ?ps w = ((Some resp, None), w')"
    then obtain resp where g: "Get env c ''/telemetry/'' ?ps w = ((Some resp, None), w')" by blast
    obtain page derr where d: "json_Decode env (Body resp) = (page, derr)"
      by (cases "json_Decode env (Body resp)")
    show ?thesis
    proof (cases derr)
      case None
      with g d have "GetTelemetryResponse env c satelliteID w = (Returns (Some page, None), w')"
        by (simp add: GetTelemetryResponse_def)
      then show ?thesis by simp
    next
      case (Some err)
      with g d have "GetTelemetryResponse env c satelliteID w = (Returns (None, Some err), w')"
        by (simp add: GetTelemetryResponse_def)
      then show ?thesis by simp
    qed
  qed
qed

end
